theory Spec2Isabelle
  imports Main "HOL-Library.AList"
begin

section \<open>Python string operations\<close>

text \<open>
  Strings are \<open>char list\<close>. The model covers ASCII text: \<open>lower\<close>, \<open>upper\<close> and
  \<open>strip\<close> act on the ASCII letters and the ASCII whitespace characters, as Python's
  \<open>str.lower\<close>, \<open>str.upper\<close> and \<open>str.strip\<close> do on ASCII input.
\<close>

definition ascii_upper :: string where
  "ascii_upper = ''ABCDEFGHIJKLMNOPQRSTUVWXYZ''"

definition ascii_lower :: string where
  "ascii_lower = ''abcdefghijklmnopqrstuvwxyz''"

definition lower_char :: "char \<Rightarrow> char" where
  "lower_char c = (case map_of (zip ascii_upper ascii_lower) c of Some d \<Rightarrow> d | None \<Rightarrow> c)"

definition upper_char :: "char \<Rightarrow> char" where
  "upper_char c = (case map_of (zip ascii_lower ascii_upper) c of Some d \<Rightarrow> d | None \<Rightarrow> c)"

definition lower :: "string \<Rightarrow> string" where
  "lower s = map lower_char s"

definition upper :: "string \<Rightarrow> string" where
  "upper s = map upper_char s"

text \<open>\<open>s.startswith(p)\<close>.\<close>

fun starts_with :: "string \<Rightarrow> string \<Rightarrow> bool" where
  "starts_with s [] = True"
| "starts_with [] (p # ps) = False"
| "starts_with (c # cs) (p # ps) = (c = p \<and> starts_with cs ps)"

text \<open>\<open>contains sub s\<close> is Python's \<open>sub in s\<close>: \<open>sub\<close> occurs in \<open>s\<close> as a contiguous run.\<close>

fun contains :: "string \<Rightarrow> string \<Rightarrow> bool" where
  "contains sub [] = (sub = [])"
| "contains sub (c # cs) = (starts_with (c # cs) sub \<or> contains sub cs)"

text \<open>\<open>s.split(d)\<close> for a one-character separator: always at least one piece.\<close>

fun split_on :: "char \<Rightarrow> string \<Rightarrow> string list" where
  "split_on d [] = [[]]"
| "split_on d (c # cs) =
     (if c = d then [] # split_on d cs
      else (case split_on d cs of [] \<Rightarrow> [[c]] | p # ps \<Rightarrow> (c # p) # ps))"

text \<open>The ASCII characters for which \<open>str.isspace\<close> holds: 0x09-0x0D, 0x1C-0x20.\<close>

definition is_space :: "char \<Rightarrow> bool" where
  "is_space c = (c \<in> set [CHR 0x09, CHR 0x0A, CHR 0x0B, CHR 0x0C, CHR 0x0D,
                           CHR 0x1C, CHR 0x1D, CHR 0x1E, CHR 0x1F, CHR 0x20])"

definition strip :: "string \<Rightarrow> string" where
  "strip s = rev (dropWhile is_space (rev (dropWhile is_space s)))"

text \<open>\<open>sep.join(xs)\<close>.\<close>

fun join :: "string \<Rightarrow> string list \<Rightarrow> string" where
  "join sep [] = []"
| "join sep [x] = x"
| "join sep (x # y # ys) = x @ sep @ join sep (y # ys)"

definition nl :: string where
  "nl = [CHR 0x0A]"

definition squote :: string where
  "squote = [CHR 0x27]"

definition dquote :: string where
  "dquote = [CHR 0x22]"

text \<open>Truthiness of an \<open>Optional[str]\<close>: \<open>None\<close> and the empty string are falsy.
  \<open>truthy r\<close> is \<open>Some s\<close> when \<open>r\<close> is the non-empty string \<open>s\<close>, and \<open>None\<close> when
  \<open>if r:\<close> takes the else branch.\<close>

definition truthy :: "string option \<Rightarrow> string option" where
  "truthy r = (case r of None \<Rightarrow> None | Some s \<Rightarrow> if s = [] then None else Some s)"

section \<open>Genre engine\<close>

record template =
  elements :: "string list"
  tone :: string
  structure' :: string
  vocabulary :: string

text \<open>\<open>GenrePromptEngine.GENRE_TEMPLATES\<close>, a dict in definition order. The field
  \<open>structure\<close> is written \<open>structure'\<close> (the plain name is reserved).\<close>

definition GENRE_TEMPLATES :: "(string \<times> template) list" where
  "GENRE_TEMPLATES =
    [(''adventure'',
       \<lparr>elements = [''brave protagonist'', ''exciting quest'', ''obstacles to overcome'', ''discovery''],
        tone = ''exciting and energetic'',
        structure' = ''journey with challenges and triumph'',
        vocabulary = ''action words, vivid descriptions of places and events''\<rparr>),
     (''fairy_tale'',
       \<lparr>elements = [''magical elements'', ''clear good vs evil'', ''transformation'', ''happy ending''],
        tone = ''whimsical and magical'',
        structure' = ''once upon a time format with magical resolution'',
        vocabulary = ''magical, enchanted, sparkling, mysterious''\<rparr>),
     (''educational'',
       \<lparr>elements = [''learning opportunity'', ''problem-solving'', ''factual information'', ''practical lessons''],
        tone = ''encouraging and informative'',
        structure' = ''problem-discovery-learning-application'',
        vocabulary = ''clear explanations, age-appropriate facts''\<rparr>),
     (''friendship'',
       \<lparr>elements = [''character relationships'', ''cooperation'', ''empathy'', ''shared experiences''],
        tone = ''warm and heartfelt'',
        structure' = ''relationship challenge and resolution'',
        vocabulary = ''emotions, caring, helping, understanding''\<rparr>),
     (''fantasy'',
       \<lparr>elements = [''magical creatures'', ''fantastical settings'', ''special powers'', ''wonder''],
        tone = ''mysterious and wondrous'',
        structure' = ''magical world with extraordinary events'',
        vocabulary = ''mystical, enchanted, powerful, extraordinary''\<rparr>)]"

text \<open>The local dict \<open>genre_keywords\<close> of \<open>detect_genre\<close>, in definition order.\<close>

definition genre_keywords :: "(string \<times> string list) list" where
  "genre_keywords =
    [(''adventure'', [''adventure'', ''quest'', ''journey'', ''explore'', ''brave'', ''hero'']),
     (''fairy_tale'', [''princess'', ''prince'', ''magic'', ''fairy'', ''castle'', ''witch'', ''dragon'']),
     (''educational'', [''learn'', ''teach'', ''school'', ''facts'', ''science'', ''math'', ''educational'']),
     (''friendship'', [''friend'', ''friendship'', ''together'', ''help'', ''kind'', ''caring'']),
     (''fantasy'', [''magical'', ''wizard'', ''unicorn'', ''fantasy'', ''mystical'', ''enchanted''])]"

text \<open>\<open>sum(1 for keyword in keywords if keyword in request_lower)\<close>: the number of
  keywords of the list that occur in the lower-cased request, each counted once.\<close>

definition keyword_score :: "string list \<Rightarrow> string \<Rightarrow> nat" where
  "keyword_score keywords request_lower =
     length (filter (\<lambda>keyword. contains keyword request_lower) keywords)"

text \<open>The dict \<open>genre_scores\<close> after the scoring loop. The keys of \<open>genre_keywords\<close> are
  distinct, so each assignment \<open>genre_scores[genre] = score\<close> appends a new entry.\<close>

definition genre_scores :: "string \<Rightarrow> (string \<times> nat) list" where
  "genre_scores request_lower =
     map (\<lambda>(genre, keywords). (genre, keyword_score keywords request_lower)) genre_keywords"

text \<open>\<open>max(d, key=d.get)\<close>: the first key, in iteration order, whose value is maximal.
  \<open>max_scan\<close> is the scan with the best entry so far; a later entry replaces it only when
  strictly greater. On an empty dict Python raises \<open>ValueError\<close>, here \<open>None\<close>.\<close>

fun max_scan :: "string \<times> nat \<Rightarrow> (string \<times> nat) list \<Rightarrow> string \<times> nat" where
  "max_scan best [] = best"
| "max_scan best (x # xs) = max_scan (if snd best < snd x then x else best) xs"

definition max_key :: "(string \<times> nat) list \<Rightarrow> string option" where
  "max_key d = (case d of [] \<Rightarrow> None | x # xs \<Rightarrow> Some (fst (max_scan x xs)))"

text \<open>\<open>detect_genre\<close>. The score table has five entries, so \<open>max\<close> does not raise and the
  lookup \<open>genre_scores[detected_genre]\<close> finds its key (lemmas \<open>max_key_genre_scores\<close> and
  \<open>detected_in_scores\<close> below); \<open>the\<close> reads these two results.\<close>

definition detect_genre :: "string \<Rightarrow> string" where
  "detect_genre user_request =
     (let request_lower = lower user_request;
          scores = genre_scores request_lower;
          detected_genre = the (max_key scores)
      in if the (map_of scores detected_genre) > 0 then detected_genre else ''adventure'')"

text \<open>The score of one genre tag for a request, as \<open>detect_genre\<close> computes it.\<close>

definition genre_score :: "string \<Rightarrow> string \<Rightarrow> nat" where
  "genre_score genre user_request =
     (case map_of genre_keywords genre of
        None \<Rightarrow> 0
      | Some keywords \<Rightarrow> keyword_score keywords (lower user_request))"

definition genre_tags :: "string list" where
  "genre_tags = map fst genre_keywords"

text \<open>\<open>get_genre_prompt\<close>. An unknown tag falls back to the adventure template.\<close>

definition get_genre_prompt :: "string \<Rightarrow> string \<Rightarrow> bool \<Rightarrow> string" where
  "get_genre_prompt genre user_request is_episode =
     (let template = (case map_of GENRE_TEMPLATES genre of
                        Some t \<Rightarrow> t
                      | None \<Rightarrow> the (map_of GENRE_TEMPLATES ''adventure''));
          base_prompt = concat
            [''Create an engaging '', genre, '' story for children ages 5-10 based on: '',
               squote, user_request, squote, nl,
             nl,
             ''GENRE-SPECIFIC REQUIREMENTS for '', upper genre, '':'', nl,
             ''- Include these elements: '', join '', '' (elements template), nl,
             ''- Maintain a '', tone template, '' tone throughout'', nl,
             ''- Follow this structure: '', structure' template, nl,
             ''- Use '', vocabulary template, '' in your language choices'', nl,
             nl,
             ''GENERAL REQUIREMENTS:'', nl,
             ''- Be appropriate for children ages 5-10 (no scary or inappropriate content)'', nl,
             ''- Be approximately 200-400 words long'', nl,
             ''- Include descriptive language and dialogue'', nl,
             ''- Teach a gentle lesson or moral'', nl,
             ''- Have a clear beginning, middle, and satisfying end''];
          base_prompt2 =
            (if is_episode
             then base_prompt @ nl @
                  ''- This is a continuation episode, maintain consistency with established ''
                  @ genre @ '' elements from previous story''
             else base_prompt)
      in base_prompt2 @ nl @ nl @ ''Please write the complete story now:'')"

section \<open>Story memory\<close>

record Character =
  name :: string
  description :: string
  personality :: "string list"
  relationships :: "(string \<times> string) list"

text \<open>One entry of \<open>story_history\<close>: the dict with the keys \<open>story\<close>, \<open>genre\<close>,
  \<open>request\<close>, \<open>quality_score\<close> and \<open>characters\<close> (fields prefixed with \<open>h_\<close>).\<close>

record history_entry =
  h_story :: string
  h_genre :: string
  h_request :: string
  h_quality_score :: nat
  h_characters :: "string list"

text \<open>Dicts are association lists in insertion order; \<open>d[k] = v\<close> is \<open>AList.update\<close>
  (an existing key keeps its place, a new key is appended), \<open>d.clear()\<close> gives \<open>[]\<close>.\<close>

record StoryMemory =
  current_story :: string
  genre :: string
  characters :: "(string \<times> Character) list"
  world_details :: "(string \<times> string) list"
  story_history :: "history_entry list"
  user_preferences :: "(string \<times> (string \<times> nat) list) list"

text \<open>\<open>StoryMemory()\<close> with the dataclass defaults.\<close>

definition initial_memory :: StoryMemory where
  "initial_memory =
     \<lparr>current_story = [], genre = [], characters = [], world_details = [],
      story_history = [], user_preferences = []\<rparr>"

definition add_story :: "StoryMemory \<Rightarrow> string \<Rightarrow> string \<Rightarrow> string \<Rightarrow> nat \<Rightarrow> StoryMemory" where
  "add_story self story g user_request quality_score =
     self\<lparr>story_history := story_history self @
             [\<lparr>h_story = story, h_genre = g, h_request = user_request,
               h_quality_score = quality_score,
               h_characters = map fst (characters self)\<rparr>],
           current_story := story,
           genre := g\<rparr>"

section \<open>Console and model gateway\<close>

text \<open>One constructor per \<open>print\<close> or \<open>input\<close> prompt of the modelled functions, with the
  values interpolated into its text.\<close>

datatype event =
    P_creating
  | P_detected string
  | P_evaluating
  | P_refining
  | P_feedback_header
  | P_rate
  | P_ask_better
  | P_ask_liked
  | P_menu_header string
  | P_menu_episode string
  | P_menu_new
  | P_menu_quit
  | In_choice
  | P_enter_123
  | In_first_request
  | In_episode string
  | In_new_story
  | In_next_story
  | P_please_tell
  | P_blank
  | P_here_is bool
  | P_rule
  | P_story string
  | P_improving
  | P_improved
  | P_sorry bool

text \<open>The world outside the program: the log of the calls made to the model (prompt and
  \<open>max_tokens\<close>, oldest first; the temperature is 0.1 in every call), the lines still to
  be read from the console, and what has been printed.\<close>

record world =
  calls :: "(string \<times> nat) list"
  stdin :: "string list"
  stdout :: "event list"

datatype py_error = IndexError | EOFError

text \<open>The backend is any function of the number of earlier calls, the prompt and
  \<open>max_tokens\<close>. \<open>None\<close> is every failure that \<open>call_model\<close> absorbs (missing key,
  exception, null content); its console diagnostics are not modelled.\<close>

type_synonym backend = "nat \<Rightarrow> string \<Rightarrow> nat \<Rightarrow> string option"

definition call_model :: "backend \<Rightarrow> string \<Rightarrow> nat \<Rightarrow> world \<Rightarrow> string option \<times> world" where
  "call_model be prompt max_tokens w =
     (be (length (calls w)) prompt max_tokens, w\<lparr>calls := calls w @ [(prompt, max_tokens)]\<rparr>)"

definition emit :: "event \<Rightarrow> world \<Rightarrow> world" where
  "emit e w = w\<lparr>stdout := stdout w @ [e]\<rparr>"

definition emits :: "event list \<Rightarrow> world \<Rightarrow> world" where
  "emits es w = w\<lparr>stdout := stdout w @ es\<rparr>"

text \<open>\<open>input()\<close>: the next console line, or \<open>None\<close> for \<open>EOFError\<close> at end of input.\<close>

definition py_input :: "world \<Rightarrow> (string \<times> world) option" where
  "py_input w = (case stdin w of [] \<Rightarrow> None | l # ls \<Rightarrow> Some (l, w\<lparr>stdin := ls\<rparr>))"

text \<open>\<open>xs[i]\<close> for \<open>i \<ge> 0\<close>.\<close>

definition py_index :: "'a list \<Rightarrow> nat \<Rightarrow> py_error + 'a" where
  "py_index xs i = (if i < length xs then Inr (xs ! i) else Inl IndexError)"

section \<open>Character extractor\<close>

definition extract_prompt :: "string \<Rightarrow> string" where
  "extract_prompt story = concat
     [''Analyze this story and extract the main characters with their details:'', nl,
      nl,
      story, nl,
      nl,
      ''For each main character, provide:'', nl,
      ''- Name'', nl,
      ''- Brief description (appearance, role)'', nl,
      ''- 2-3 personality traits'', nl,
      ''- Relationships to other characters'', nl,
      nl,
      ''Format as: CHARACTER_NAME: description | personality: trait1, trait2, trait3 | relationships: name-relationship'', nl,
      nl,
      ''Example: Alice: young girl with curly hair, main protagonist | personality: curious, brave, kind | relationships: Bob-best friend'']"

text \<open>The inner loop \<open>for part in parts\<close>: the last part holding \<open>personality:\<close> wins.\<close>

fun personality_loop :: "string list \<Rightarrow> string list \<Rightarrow> py_error + string list" where
  "personality_loop personality' [] = Inr personality'"
| "personality_loop personality' (part # parts) =
     (if contains ''personality:'' (lower part)
      then (case py_index (split_on CHR '':'' part) 1 of
              Inl e \<Rightarrow> Inl e
            | Inr t \<Rightarrow> personality_loop (map strip (split_on CHR '','' (strip t))) parts)
      else personality_loop personality' parts)"

text \<open>The body of the \<open>try\<close> for one line; \<open>Inl\<close> is an exception raised inside it.\<close>

definition parse_line :: "string \<Rightarrow> StoryMemory \<Rightarrow> py_error + StoryMemory" where
  "parse_line line memory =
     (let parts = split_on CHR ''|'' line in
      case py_index parts 0 of
        Inl e \<Rightarrow> Inl e
      | Inr p0 \<Rightarrow>
          let name_desc = split_on CHR '':'' p0 in
          if length name_desc \<ge> 2 then
            (case py_index name_desc 0 of
               Inl e \<Rightarrow> Inl e
             | Inr n \<Rightarrow>
                (case py_index name_desc 1 of
                   Inl e \<Rightarrow> Inl e
                 | Inr d \<Rightarrow>
                    (case personality_loop [] parts of
                       Inl e \<Rightarrow> Inl e
                     | Inr p \<Rightarrow>
                        Inr (memory\<lparr>characters :=
                               AList.update (strip n)
                                 \<lparr>name = strip n, description = strip d, personality = p,
                                  relationships = []\<rparr>
                                 (characters memory)\<rparr>))))
          else Inr memory)"

text \<open>One iteration of \<open>for line in lines\<close>: the guard, the \<open>try\<close>, and the bare
  \<open>except: continue\<close>.\<close>

definition process_line :: "string \<Rightarrow> StoryMemory \<Rightarrow> StoryMemory" where
  "process_line line memory =
     (if contains '':'' line \<and> contains ''|'' line
      then (case parse_line line memory of Inl e \<Rightarrow> memory | Inr memory' \<Rightarrow> memory')
      else memory)"

text \<open>The block under \<open>if result:\<close>: every line of the response in turn.\<close>

definition parse_characters :: "string option \<Rightarrow> StoryMemory \<Rightarrow> StoryMemory" where
  "parse_characters result memory =
     (case truthy result of
        None \<Rightarrow> memory
      | Some r \<Rightarrow> foldl (\<lambda>m line. process_line line m) memory (split_on CHR 0x0A r))"

definition extract_characters :: "backend \<Rightarrow> string \<Rightarrow> StoryMemory \<Rightarrow> world \<Rightarrow> StoryMemory \<times> world" where
  "extract_characters be story memory w =
     (let (result, w1) = call_model be (extract_prompt story) 500 w in
      (parse_characters result memory, w1))"

section \<open>Feedback and revision\<close>

text \<open>The feedback dict: \<open>get_user_feedback\<close>, its only producer, always sets both keys,
  so \<open>feedback.get("rating", 0)\<close> and \<open>feedback.get("feedback")\<close> read the fields.\<close>

record user_feedback =
  rating :: nat
  feedback :: string

text \<open>\<open>str.isdigit\<close> and \<open>int\<close> on ASCII digits.\<close>

definition isdigit :: "string \<Rightarrow> bool" where
  "isdigit s = (s \<noteq> [] \<and> list_all (\<lambda>c. c \<in> set ''0123456789'') s)"

definition digit_val :: "char \<Rightarrow> nat" where
  "digit_val c = (case map_of (zip ''0123456789'' [0..<10]) c of Some d \<Rightarrow> d | None \<Rightarrow> 0)"

definition int_of_digits :: "string \<Rightarrow> nat" where
  "int_of_digits s = foldl (\<lambda>n c. 10 * n + digit_val c) 0 s"

text \<open>\<open>str(n)\<close> for a non-negative integer.\<close>

fun show_nat :: "nat \<Rightarrow> string" where
  "show_nat n =
     (if n < 10 then [''0123456789'' ! n]
      else show_nat (n div 10) @ [''0123456789'' ! (n mod 10)])"

text \<open>\<open>get_user_feedback\<close>; \<open>None\<close> is \<open>EOFError\<close> raised by \<open>input()\<close>.\<close>

definition get_user_feedback :: "world \<Rightarrow> (user_feedback \<times> world) option" where
  "get_user_feedback w0 =
     (case py_input (emits [P_feedback_header, P_rate] w0) of
        None \<Rightarrow> None
      | Some (l, w1) \<Rightarrow>
          let rating_input = strip l;
              r = (if isdigit rating_input \<and> 1 \<le> int_of_digits rating_input
                      \<and> int_of_digits rating_input \<le> 5
                   then int_of_digits rating_input else 0)
          in if r > 0 then
               (if r \<le> 2 then
                  (case py_input (emit P_ask_better w1) of
                     None \<Rightarrow> None
                   | Some (l2, w2) \<Rightarrow> Some (\<lparr>rating = r, feedback = strip l2\<rparr>, w2))
                else if r \<ge> 4 then
                  (case py_input (emit P_ask_liked w1) of
                     None \<Rightarrow> None
                   | Some (l2, w2) \<Rightarrow> Some (\<lparr>rating = r, feedback = strip l2\<rparr>, w2))
                else Some (\<lparr>rating = r, feedback = []\<rparr>, w1))
             else Some (\<lparr>rating = r, feedback = []\<rparr>, w1))"

definition revision_prompt :: "string \<Rightarrow> user_feedback \<Rightarrow> string \<Rightarrow> string" where
  "revision_prompt story fb user_request = concat
     [''The user provided this feedback about the story: '', dquote, feedback fb, dquote, nl,
      ''They rated it '', show_nat (rating fb), ''/5.'', nl,
      nl,
      ''Original request: '', user_request, nl,
      ''Current story:'', nl,
      story, nl,
      nl,
      ''Please revise the story to address their feedback while maintaining the core story elements. Make specific improvements based on their comments.'', nl,
      nl,
      ''IMPORTANT: Provide ONLY the revised story text, no explanations.'']"

text \<open>\<open>revise_story_with_feedback\<close>; \<open>call_model(revision_prompt)\<close> uses the default
  \<open>max_tokens=3000\<close>.\<close>

definition revise_story_with_feedback ::
    "backend \<Rightarrow> string \<Rightarrow> user_feedback \<Rightarrow> string \<Rightarrow> world \<Rightarrow> string \<times> world" where
  "revise_story_with_feedback be story fb user_request w =
     (if feedback fb = [] \<or> rating fb \<ge> 4 then (story, w)
      else
        let (revised, w1) = call_model be (revision_prompt story fb user_request) 3000 w in
        (case truthy revised of Some r \<Rightarrow> r | None \<Rightarrow> story, w1))"

section \<open>Story generation pipeline\<close>

text \<open>The prompt of an episode that has a previous story: the character list, the last
  500 characters of the previous story, and the continuation instruction.\<close>

definition char_details :: "Character \<Rightarrow> string" where
  "char_details char =
     (let details = name char @ '': '' @ description char in
      if personality char \<noteq> []
      then details @ '' (personality: '' @ join '', '' (personality char) @ '')''
      else details)"

definition character_info :: "StoryMemory \<Rightarrow> string" where
  "character_info memory =
     (if characters memory \<noteq> []
      then nl @ nl @ ''ESTABLISHED CHARACTERS:'' @ nl @
           join nl (map (\<lambda>(k, char). char_details char) (characters memory))
      else [])"

definition episode_prompt :: "StoryMemory \<Rightarrow> string \<Rightarrow> string" where
  "episode_prompt memory user_input = concat
     [get_genre_prompt (genre memory) user_input True, nl,
      nl,
      ''PREVIOUS STORY CONTEXT:'', nl,
      drop (length (current_story memory) - 500) (current_story memory), ''...'',
        character_info memory, nl,
      nl,
      ''Continue the adventure with these established characters and world.'']"

definition judge_prompt :: "string \<Rightarrow> string \<Rightarrow> string" where
  "judge_prompt g initial_story = concat
     [''Evaluate this '', g, '' story for children ages 5-10:'', nl,
      nl,
      initial_story, nl,
      nl,
      ''Focus on:'', nl,
      ''1. Genre adherence (does it feel like a good '', g, '' story?)'', nl,
      ''2. Age-appropriateness and engagement'', nl,
      ''3. Character development and consistency'', nl,
      ''4. Story structure and pacing'', nl,
      ''5. Educational value and positive messages'', nl,
      nl,
      ''Provide specific suggestions for improvement. Rate overall quality 1-5.'']"

definition refine_prompt :: "string \<Rightarrow> string \<Rightarrow> string \<Rightarrow> string" where
  "refine_prompt g evaluation initial_story = concat
     [''Based on this evaluation for a '', g, '' story:'', nl,
      nl,
      evaluation, nl,
      nl,
      ''Improve this story while maintaining its '', g, '' elements:'', nl,
      nl,
      initial_story, nl,
      nl,
      ''IMPORTANT: Provide ONLY the improved story text.'']"

text \<open>\<open>generate_story\<close>: the returned story (\<open>None\<close> for Python's \<open>None\<close>), the memory as
  the call leaves it, and the world.\<close>

definition generate_story ::
    "backend \<Rightarrow> string \<Rightarrow> StoryMemory \<Rightarrow> bool \<Rightarrow> world \<Rightarrow> string option \<times> StoryMemory \<times> world" where
  "generate_story be user_input memory is_episode w0 =
     (let w1 = emit P_creating w0;
          (memory1, w2) =
            (if \<not> is_episode
             then (memory\<lparr>genre := detect_genre user_input\<rparr>,
                   emit (P_detected (detect_genre user_input)) w1)
             else (memory, w1));
          storyteller_prompt =
            (if is_episode \<and> current_story memory1 \<noteq> []
             then episode_prompt memory1 user_input
             else get_genre_prompt (genre memory1) user_input False);
          (initial, w3) = call_model be storyteller_prompt 3000 w2
      in case truthy initial of
           None \<Rightarrow> (None, memory1, w3)
         | Some initial_story \<Rightarrow>
             let w4 = emit P_evaluating w3;
                 (evaluation, w5) = call_model be (judge_prompt (genre memory1) initial_story) 1000 w4
             in (case truthy evaluation of
                   None \<Rightarrow> (Some initial_story, memory1, w5)
                 | Some ev \<Rightarrow>
                     let w6 = emit P_refining w5;
                         (final_story, w7) =
                           call_model be (refine_prompt (genre memory1) ev initial_story) 3000 w6;
                         story = (case truthy final_story of Some f \<Rightarrow> f | None \<Rightarrow> initial_story)
                     in if \<not> is_episode
                        then (let (memory2, w8) = extract_characters be story memory1 w7
                              in (Some story, memory2, w8))
                        else (Some story, memory1, w7)))"

text \<open>Names for the three model calls of one \<open>generate_story\<close> run, read off its
  body: the genre it works with, the prompt of the draft call, and what the backend
  answers to the draft, evaluation and refinement calls. The call counter is the length
  of the log when \<open>generate_story\<close> starts, plus the calls it has made.\<close>

definition story_genre :: "string \<Rightarrow> StoryMemory \<Rightarrow> bool \<Rightarrow> string" where
  "story_genre user_input memory is_episode =
     (if is_episode then genre memory else detect_genre user_input)"

definition storyteller_prompt :: "string \<Rightarrow> StoryMemory \<Rightarrow> bool \<Rightarrow> string" where
  "storyteller_prompt user_input memory is_episode =
     (if is_episode \<and> current_story memory \<noteq> []
      then episode_prompt memory user_input
      else get_genre_prompt (story_genre user_input memory is_episode) user_input False)"

definition draft_reply :: "backend \<Rightarrow> string \<Rightarrow> StoryMemory \<Rightarrow> bool \<Rightarrow> world \<Rightarrow> string option" where
  "draft_reply be user_input memory is_episode w =
     be (length (calls w)) (storyteller_prompt user_input memory is_episode) 3000"

definition evaluation_reply ::
    "backend \<Rightarrow> string \<Rightarrow> StoryMemory \<Rightarrow> bool \<Rightarrow> world \<Rightarrow> string \<Rightarrow> string option" where
  "evaluation_reply be user_input memory is_episode w initial_story =
     be (length (calls w) + 1)
        (judge_prompt (story_genre user_input memory is_episode) initial_story) 1000"

definition refinement_reply ::
    "backend \<Rightarrow> string \<Rightarrow> StoryMemory \<Rightarrow> bool \<Rightarrow> world \<Rightarrow> string \<Rightarrow> string \<Rightarrow> string option" where
  "refinement_reply be user_input memory is_episode w evaluation initial_story =
     be (length (calls w) + 2)
        (refine_prompt (story_genre user_input memory is_episode) evaluation initial_story) 3000"

text \<open>The answer to the character extraction call, the fourth call of a run that
  reaches it.\<close>

definition extraction_reply :: "backend \<Rightarrow> world \<Rightarrow> string \<Rightarrow> string option" where
  "extraction_reply be w story = be (length (calls w) + 3) (extract_prompt story) 500"

section \<open>Session controller\<close>

definition assessment_prompt :: "string \<Rightarrow> string \<Rightarrow> string" where
  "assessment_prompt g story = concat
     [''Assess this '', g, '' story for episode potential:'', nl,
      nl,
      story, nl,
      nl,
      ''Consider:'', nl,
      ''- Character development and likability for '', g, '' stories'', nl,
      ''- World-building potential in the '', g, '' genre'', nl,
      ''- Story engagement level'', nl,
      ''- Whether characters/setting could support more '', g, '' adventures'', nl,
      nl,
      ''Respond with only '', dquote, ''YES'', dquote,
        '' if this has good episode potential, or '', dquote, ''NO'', dquote,
        '' if it doesn'', squote, ''t.'']"

text \<open>\<open>assess_story_quality\<close>: the truth value of \<open>result and "YES" in result.upper()\<close>.\<close>

definition assess_story_quality ::
    "backend \<Rightarrow> string \<Rightarrow> StoryMemory \<Rightarrow> world \<Rightarrow> bool \<times> world" where
  "assess_story_quality be story memory w =
     (let (result, w1) = call_model be (assessment_prompt (genre memory) story) 100 w in
      (case truthy result of None \<Rightarrow> False | Some r \<Rightarrow> contains ''YES'' (upper r), w1))"

text \<open>The \<open>while True\<close> of \<open>get_user_choice\<close>, over the console lines left: it reads until
  a line is 1, 2 or 3; \<open>None\<close> is \<open>EOFError\<close>.\<close>

fun choice_loop :: "string list \<Rightarrow> event list \<Rightarrow> (string \<times> string list \<times> event list) option" where
  "choice_loop [] out = None"
| "choice_loop (l # ls) out =
     (if strip l \<in> set [''1'', ''2'', ''3'']
      then Some (strip l, ls, out @ [In_choice])
      else choice_loop ls (out @ [In_choice, P_enter_123]))"

definition get_user_choice :: "StoryMemory \<Rightarrow> world \<Rightarrow> (string \<times> world) option" where
  "get_user_choice memory w =
     (let w1 = emits [P_menu_header (genre memory), P_menu_episode (genre memory),
                      P_menu_new, P_menu_quit] w
      in case choice_loop (stdin w1) (stdout w1) of
           None \<Rightarrow> None
         | Some (choice, ls, out) \<Rightarrow> Some (choice, w1\<lparr>stdin := ls, stdout := out\<rparr>))"

text \<open>The state of \<open>main\<close> at the head of its loop: the memory, the story counter and the
  world. The banner, the start-up check of the API key and the goodbye lines stand
  outside the loop and are not modelled.\<close>

record session =
  memory :: StoryMemory
  story_count :: nat
  world :: world

text \<open>Lines 405-428 of the loop body: what the turn is asked to do.\<close>

datatype request =
    Request string bool session
  | Quit session
  | Eof

definition clear_characters :: "StoryMemory \<Rightarrow> StoryMemory" where
  "clear_characters m = m\<lparr>characters := []\<rparr>"

definition next_request :: "backend \<Rightarrow> session \<Rightarrow> request" where
  "next_request be s =
     (if story_count s = 0 then
        (case py_input (emit In_first_request (world s)) of
           None \<Rightarrow> Eof
         | Some (l, w) \<Rightarrow> Request (strip l) False (s\<lparr>world := w\<rparr>))
      else
        (let (ok, w1) = assess_story_quality be (current_story (memory s)) (memory s) (world s) in
         if ok then
           (case get_user_choice (memory s) w1 of
              None \<Rightarrow> Eof
            | Some (choice, w2) \<Rightarrow>
                if choice = ''1'' then
                  (case py_input (emit (In_episode (genre (memory s))) w2) of
                     None \<Rightarrow> Eof
                   | Some (l, w3) \<Rightarrow> Request (strip l) True (s\<lparr>world := w3\<rparr>))
                else if choice = ''2'' then
                  (case py_input (emit In_new_story w2) of
                     None \<Rightarrow> Eof
                   | Some (l, w3) \<Rightarrow>
                       Request (strip l) False
                         (s\<lparr>memory := clear_characters (memory s), world := w3\<rparr>))
                else Quit (s\<lparr>world := w2\<rparr>))
         else
           (case py_input (emit In_next_story w1) of
              None \<Rightarrow> Eof
            | Some (l, w2) \<Rightarrow>
                Request (strip l) False
                  (s\<lparr>memory := clear_characters (memory s), world := w2\<rparr>))))"

text \<open>How one pass through the loop body ends: at the loop head again, at \<open>break\<close>, or
  with an exception that leaves \<open>main\<close>.\<close>

datatype outcome =
    Continue session
  | Break session
  | Raise py_error

text \<open>The update of \<open>user_preferences["preferred_genres"]\<close> after a rating of 4 or 5.\<close>

definition bump_preference :: "StoryMemory \<Rightarrow> StoryMemory" where
  "bump_preference m =
     (let genre_pref = (case map_of (user_preferences m) ''preferred_genres'' of
                          None \<Rightarrow> [] | Some d \<Rightarrow> d);
          genre_pref2 = AList.update (genre m)
                          ((case map_of genre_pref (genre m) of None \<Rightarrow> 0 | Some n \<Rightarrow> n) + 1)
                          genre_pref
      in m\<lparr>user_preferences := AList.update ''preferred_genres'' genre_pref2 (user_preferences m)\<rparr>)"

text \<open>Lines 437-475 of the loop body: generate, show, collect feedback, revise, store.\<close>

definition story_turn :: "backend \<Rightarrow> string \<Rightarrow> bool \<Rightarrow> session \<Rightarrow> outcome" where
  "story_turn be user_input is_episode s =
     (let (story, memory1, w1) =
            generate_story be user_input (memory s) is_episode (emit P_blank (world s))
      in case truthy story of
           None \<Rightarrow>
             Continue (s\<lparr>memory := memory1, world := emits [P_sorry is_episode, P_blank] w1\<rparr>)
         | Some st \<Rightarrow>
             (case get_user_feedback (emits [P_here_is is_episode, P_rule, P_story st, P_rule] w1) of
                None \<Rightarrow> Raise EOFError
              | Some (fb, w2) \<Rightarrow>
                  let (story2, w3) =
                        (if rating fb \<le> 2 \<and> feedback fb \<noteq> [] then
                           (let (revised_story, w) =
                                  revise_story_with_feedback be st fb user_input (emit P_improving w2)
                            in if revised_story \<noteq> st
                               then (revised_story,
                                     emits [P_improved, P_rule, P_story revised_story, P_rule] w)
                               else (st, w))
                         else (st, w2));
                      memory2 = add_story memory1 story2 (genre memory1) user_input (rating fb);
                      memory3 = (if rating fb \<ge> 4 then bump_preference memory2 else memory2)
                  in Continue \<lparr>memory = memory3, story_count = story_count s + 1,
                               world = emit P_blank w3\<rparr>))"

text \<open>One pass through the body of \<open>while True\<close>.\<close>

definition turn :: "backend \<Rightarrow> session \<Rightarrow> outcome" where
  "turn be s =
     (case next_request be s of
        Eof \<Rightarrow> Raise EOFError
      | Quit s1 \<Rightarrow> Break s1
      | Request user_input is_episode s1 \<Rightarrow>
          if lower user_input \<in> set [''quit'', ''exit'', ''q''] then Break s1
          else if user_input = [] then Continue (s1\<lparr>world := emit P_please_tell (world s1)\<rparr>)
          else story_turn be user_input is_episode s1)"

definition initial_session :: "string list \<Rightarrow> session" where
  "initial_session console =
     \<lparr>memory = initial_memory, story_count = 0,
      world = \<lparr>calls = [], stdin = console, stdout = []\<rparr>\<rparr>"

text \<open>The sessions that \<open>main\<close> can be in at the head of its loop or after leaving it.\<close>

inductive reachable :: "backend \<Rightarrow> session \<Rightarrow> bool" for be :: backend where
  start: "reachable be (initial_session console)"
| step: "reachable be s \<Longrightarrow> turn be s = Continue s' \<Longrightarrow> reachable be s'"
| leave: "reachable be s \<Longrightarrow> turn be s = Break s' \<Longrightarrow> reachable be s'"

text \<open>The states of the controller as the specification names them.\<close>

datatype controller_state = AwaitingFirstRequest | AwaitingNextAction | Done

definition state_of :: "outcome \<Rightarrow> controller_state option" where
  "state_of out =
     (case out of
        Continue s \<Rightarrow> Some (if story_count s = 0 then AwaitingFirstRequest else AwaitingNextAction)
      | Break s \<Rightarrow> Some Done
      | Raise e \<Rightarrow> None)"

section \<open>Properties of lines and of the memory\<close>

text \<open>A malformed line of an extraction response: it has no colon, or no pipe, or the
  parse of it raises.\<close>

definition malformed_line :: "string \<Rightarrow> bool" where
  "malformed_line line =
     (\<not> contains '':'' line \<or> \<not> contains ''|'' line \<or> isl (parse_line line initial_memory))"

text \<open>No stored character has a relationship entry.\<close>

definition no_relationships :: "StoryMemory \<Rightarrow> bool" where
  "no_relationships m = list_all (\<lambda>(k, c). relationships c = []) (characters m)"

text \<open>The current story is the story of the newest history record, when there is one.\<close>

definition history_consistent :: "StoryMemory \<Rightarrow> bool" where
  "history_consistent m =
     (story_history m \<noteq> [] \<longrightarrow> current_story m = h_story (last (story_history m)))"

section \<open>Concrete worlds and backends\<close>

text \<open>A world with nothing logged, typed or printed, and a backend that answers its
  n-th call with the n-th entry of a script and fails once the script is used up.\<close>

definition world0 :: world where
  "world0 = \<lparr>calls = [], stdin = [], stdout = []\<rparr>"

definition answers :: "string option list \<Rightarrow> backend" where
  "answers script = (\<lambda>n prompt max_tokens. if n < length script then script ! n else None)"

text \<open>A session of two turns. In the first the backend answers the draft, evaluation,
  refinement and extraction calls; the user skips the rating. In the second the
  assessment call and the draft call fail. \<open>demo_session1\<close> and \<open>demo_session2\<close> are the
  sessions after the first and after the second turn, \<open>demo_asked2\<close> the session of the
  second turn once its request has been read.\<close>

definition demo_draft :: string where
  "demo_draft = ''Once upon a time Alice met Bob.''"

definition demo_evaluation :: string where
  "demo_evaluation = ''Good pacing. 4/5''"

definition demo_refined :: string where
  "demo_refined = ''Once upon a time, brave Alice met Bob the cat.''"

definition demo_extraction :: string where
  "demo_extraction =
     ''Alice: a brave girl | personality: curious, brave | relationships: Bob-best friend''
     @ nl @ ''not a character line''"

definition demo_backend :: backend where
  "demo_backend =
     answers [Some demo_draft, Some demo_evaluation, Some demo_refined, Some demo_extraction,
              None, None]"

definition demo_console :: "string list" where
  "demo_console = [''A brave hero'', [], ''a princess'']"

definition demo_memory1 :: StoryMemory where
  "demo_memory1 =
     \<lparr>current_story = demo_refined, genre = ''adventure'',
      characters = [(''Alice'', \<lparr>name = ''Alice'', description = ''a brave girl'',
                                personality = [''curious'', ''brave''], relationships = []\<rparr>)],
      world_details = [],
      story_history = [\<lparr>h_story = demo_refined, h_genre = ''adventure'',
                        h_request = ''A brave hero'', h_quality_score = 0,
                        h_characters = [''Alice'']\<rparr>],
      user_preferences = []\<rparr>"

definition demo_session1 :: session where
  "demo_session1 =
     \<lparr>memory = demo_memory1, story_count = 1,
      world = \<lparr>calls = [(storyteller_prompt ''A brave hero'' initial_memory False, 3000),
                        (judge_prompt ''adventure'' demo_draft, 1000),
                        (refine_prompt ''adventure'' demo_evaluation demo_draft, 3000),
                        (extract_prompt demo_refined, 500)],
               stdin = [''a princess''],
               stdout = [In_first_request, P_blank, P_creating, P_detected ''adventure'',
                         P_evaluating, P_refining, P_here_is False, P_rule,
                         P_story demo_refined, P_rule, P_feedback_header, P_rate, P_blank]\<rparr>\<rparr>"

definition demo_session2 :: session where
  "demo_session2 =
     \<lparr>memory = demo_memory1\<lparr>genre := ''fairy_tale'', characters := []\<rparr>, story_count = 1,
      world = \<lparr>calls = calls (world demo_session1) @
                        [(assessment_prompt ''adventure'' demo_refined, 100),
                         (storyteller_prompt ''a princess'' (clear_characters demo_memory1) False, 3000)],
               stdin = [],
               stdout = stdout (world demo_session1) @
                        [In_next_story, P_blank, P_creating, P_detected ''fairy_tale'',
                         P_sorry False, P_blank]\<rparr>\<rparr>"


section \<open>Genre detection: the highest score, first definition first\<close>

lemma max_scan_mem: "max_scan b xs \<in> set (b # xs)"
  by (induction xs arbitrary: b) auto

lemma max_scan_mono: "snd b \<le> snd (max_scan b xs)"
proof (induction xs arbitrary: b)
  case Nil
  show ?case by simp
next
  case (Cons x xs)
  have "snd b \<le> snd (if snd b < snd x then x else b)" by simp
  also have "\<dots> \<le> snd (max_scan (if snd b < snd x then x else b) xs)" by (rule Cons.IH)
  finally show ?case by simp
qed

lemma max_scan_ge: "y \<in> set (b # xs) \<Longrightarrow> snd y \<le> snd (max_scan b xs)"
proof (induction xs arbitrary: b)
  case Nil
  then show ?case by simp
next
  case (Cons x xs)
  let ?b = "if snd b < snd x then x else b"
  have m: "snd ?b \<le> snd (max_scan ?b xs)" by (rule max_scan_mono)
  from Cons.prems consider "y = b" | "y = x" | "y \<in> set xs" by auto
  then show ?case
  proof cases
    case 1
    then show ?thesis using m by (simp split: if_splits)
  next
    case 2
    then show ?thesis using m by (simp split: if_splits)
  next
    case 3
    then show ?thesis using Cons.IH[of ?b] by simp
  qed
qed

lemma max_scan_first:
  "y \<in> set (takeWhile (\<lambda>y. y \<noteq> max_scan b xs) (b # xs)) \<Longrightarrow> snd y < snd (max_scan b xs)"
proof (induction xs arbitrary: b y)
  case Nil
  then show ?case by simp
next
  case (Cons x xs)
  let ?b = "if snd b < snd x then x else b"
  let ?m = "max_scan ?b xs"
  have m: "max_scan b (x # xs) = ?m" by simp
  have ge: "snd ?b \<le> snd ?m" by (rule max_scan_mono)
  have IH: "\<And>z. z \<in> set (takeWhile (\<lambda>y. y \<noteq> ?m) (?b # xs)) \<Longrightarrow> snd z < snd ?m"
    using Cons.IH[of _ ?b] by simp
  from Cons.prems have y: "y \<in> set (takeWhile (\<lambda>y. y \<noteq> ?m) (b # x # xs))"
    by simp
  show ?case
  proof (cases "snd b < snd x")
    case True
    then have bm: "snd b < snd ?m" using ge by simp
    then have "b \<noteq> ?m" by auto
    with y have "y = b \<or> y \<in> set (takeWhile (\<lambda>y. y \<noteq> ?m) (x # xs))" by simp
    then show ?thesis
    proof
      assume "y = b"
      then show ?thesis using bm unfolding m by simp
    next
      assume "y \<in> set (takeWhile (\<lambda>y. y \<noteq> ?m) (x # xs))"
      then have "y \<in> set (takeWhile (\<lambda>y. y \<noteq> ?m) (?b # xs))" using True by simp
      from IH[OF this] show ?thesis unfolding m .
    qed
  next
    case False
    then have bb: "?b = b" by simp
    show ?thesis
    proof (cases "b = ?m")
      case True
      then show ?thesis using y by simp
    next
      case bne: False
      have bin: "b \<in> set (takeWhile (\<lambda>y. y \<noteq> ?m) (?b # xs))" using bne bb by simp
      have blt: "snd b < snd ?m" using IH[OF bin] .
      from y bne have "y = b \<or> y \<in> set (takeWhile (\<lambda>y. y \<noteq> ?m) (x # xs))" by simp
      then show ?thesis
      proof
        assume "y = b"
        then show ?thesis using blt unfolding m by simp
      next
        assume yin: "y \<in> set (takeWhile (\<lambda>y. y \<noteq> ?m) (x # xs))"
        then have xne: "x \<noteq> ?m" by (auto split: if_splits)
        with yin have "y = x \<or> y \<in> set (takeWhile (\<lambda>y. y \<noteq> ?m) xs)" by simp
        then show ?thesis
        proof
          assume "y = x"
          then show ?thesis using False blt unfolding m by simp
        next
          assume "y \<in> set (takeWhile (\<lambda>y. y \<noteq> ?m) xs)"
          then have "y \<in> set (takeWhile (\<lambda>y. y \<noteq> ?m) (?b # xs))" using bne bb by simp
          from IH[OF this] show ?thesis unfolding m .
        qed
      qed
    qed
  qed
qed

lemma takeWhile_tagged:
  "takeWhile (\<lambda>y. y \<noteq> (g, f g)) (map (\<lambda>g. (g, f g)) tags)
     = map (\<lambda>g. (g, f g)) (takeWhile (\<lambda>g'. g' \<noteq> g) tags)"
  by (induction tags) auto

lemma max_key_map:
  assumes "tags \<noteq> []"
  shows "\<exists>g. max_key (map (\<lambda>g. (g, f g)) tags) = Some g \<and> g \<in> set tags
            \<and> (\<forall>g'\<in>set tags. f g' \<le> f g)
            \<and> (\<forall>g'\<in>set (takeWhile (\<lambda>g'. g' \<noteq> g) tags). f g' < f g)"
proof -
  from assms obtain a rest where tags: "tags = a # rest" by (cases tags) auto
  let ?p = "\<lambda>g. (g, f g)"
  let ?m = "max_scan (?p a) (map ?p rest)"
  have mem: "?m \<in> set (map ?p tags)" using max_scan_mem[of "?p a" "map ?p rest"] tags by simp
  then obtain g where g: "g \<in> set tags" "?m = ?p g" by auto
  have k: "max_key (map ?p tags) = Some g" using g by (simp add: max_key_def tags)
  have ge: "\<forall>g'\<in>set tags. f g' \<le> f g"
  proof
    fix g' assume "g' \<in> set tags"
    then have "?p g' \<in> set (?p a # map ?p rest)" using tags by auto
    from max_scan_ge[OF this] show "f g' \<le> f g" using g by simp
  qed
  have tw: "takeWhile (\<lambda>y. y \<noteq> ?m) (?p a # map ?p rest) = map ?p (takeWhile (\<lambda>g'. g' \<noteq> g) tags)"
    using g(2) takeWhile_tagged[of g f tags] by (simp add: tags)
  have first: "\<forall>g'\<in>set (takeWhile (\<lambda>g'. g' \<noteq> g) tags). f g' < f g"
  proof
    fix g' assume "g' \<in> set (takeWhile (\<lambda>g'. g' \<noteq> g) tags)"
    then have "?p g' \<in> set (takeWhile (\<lambda>y. y \<noteq> ?m) (?p a # map ?p rest))"
      unfolding tw by simp
    from max_scan_first[OF this] show "f g' < f g" using g by simp
  qed
  from k g ge first show ?thesis by blast
qed

lemma genre_scores_eq:
  "genre_scores (lower r) = map (\<lambda>g. (g, genre_score g r)) genre_tags"
  by (simp add: genre_scores_def genre_score_def genre_tags_def genre_keywords_def)

lemma genre_tags_eq:
  "genre_tags = [''adventure'', ''fairy_tale'', ''educational'', ''friendship'', ''fantasy'']"
  by (simp add: genre_tags_def genre_keywords_def)

lemma detect_genre_max:
  "max_key (genre_scores (lower r)) = Some (detect_genre r)
   \<and> detect_genre r \<in> set genre_tags
   \<and> (\<forall>g\<in>set genre_tags. genre_score g r \<le> genre_score (detect_genre r) r)
   \<and> (\<forall>g\<in>set (takeWhile (\<lambda>g. g \<noteq> detect_genre r) genre_tags).
         genre_score g r < genre_score (detect_genre r) r)"
proof -
  have ne: "genre_tags \<noteq> []" by (simp add: genre_tags_eq)
  from max_key_map[OF ne, of "\<lambda>g. genre_score g r"] obtain d where
    d: "max_key (genre_scores (lower r)) = Some d" "d \<in> set genre_tags"
       "\<forall>g\<in>set genre_tags. genre_score g r \<le> genre_score d r"
       "\<forall>g\<in>set (takeWhile (\<lambda>g. g \<noteq> d) genre_tags). genre_score g r < genre_score d r"
    unfolding genre_scores_eq by blast
  have look: "map_of (genre_scores (lower r)) d = Some (genre_score d r)"
    using d(2) unfolding genre_scores_eq by (simp add: map_of_map_restrict)
  have dg: "detect_genre r = (if genre_score d r > 0 then d else ''adventure'')"
    using d(1) look by (simp add: detect_genre_def Let_def)
  have "detect_genre r = d"
  proof (cases "genre_score d r > 0")
    case True
    then show ?thesis using dg by simp
  next
    case False
    then have "takeWhile (\<lambda>g. g \<noteq> d) genre_tags = []"
      using d(4) by (cases "takeWhile (\<lambda>g. g \<noteq> d) genre_tags") auto
    then have "d = ''adventure''" by (simp add: genre_tags_eq split: if_splits)
    then show ?thesis using dg by simp
  qed
  then show ?thesis using d by simp
qed

text \<open>\<open>max\<close> never raises in \<open>detect_genre\<close>, and the score lookup finds its key.\<close>

lemma max_key_genre_scores: "max_key (genre_scores (lower r)) = Some (detect_genre r)"
  using detect_genre_max[of r] by simp

lemma detected_in_scores:
  "map_of (genre_scores (lower r)) (detect_genre r) = Some (genre_score (detect_genre r) r)"
  using detect_genre_max[of r] unfolding genre_scores_eq by (simp add: map_of_map_restrict)

text \<open>A genre scores zero exactly when none of its keywords occurs in the lower-cased
  request.\<close>

lemma genre_score_zero_iff:
  "map_of genre_keywords g = Some kws \<Longrightarrow>
   genre_score g r = 0 \<longleftrightarrow> (\<forall>k\<in>set kws. \<not> contains k (lower r))"
  by (simp add: genre_score_def keyword_score_def filter_empty_conv)





section \<open>Model gateway and generation pipeline\<close>

lemma truthy_cases: "truthy r = None \<longleftrightarrow> r = None \<or> r = Some []"
  by (simp add: truthy_def split: option.splits)

lemma truthy_Some: "truthy r = Some s \<longleftrightarrow> r = Some s \<and> s \<noteq> []"
  by (auto simp: truthy_def split: option.splits)

lemma calls_emit [simp]: "calls (emit e w) = calls w"
  by (simp add: emit_def)

lemma calls_emits [simp]: "calls (emits es w) = calls w"
  by (simp add: emits_def)

lemma fst_call_model [simp]: "fst (call_model be p t w) = be (length (calls w)) p t"
  by (simp add: call_model_def)

lemma calls_call_model [simp]: "calls (snd (call_model be p t w)) = calls w @ [(p, t)]"
  by (simp add: call_model_def)

lemma stdout_call_model [simp]: "stdout (snd (call_model be p t w)) = stdout w"
  by (simp add: call_model_def)

lemma stdin_call_model [simp]: "stdin (snd (call_model be p t w)) = stdin w"
  by (simp add: call_model_def)

text \<open>The value \<open>generate_story\<close> returns, in terms of the three answers.\<close>

lemma generate_story_result:
  "fst (generate_story be u m ep w) =
     (case truthy (draft_reply be u m ep w) of
        None \<Rightarrow> None
      | Some d \<Rightarrow>
          (case truthy (evaluation_reply be u m ep w d) of
             None \<Rightarrow> Some d
           | Some ev \<Rightarrow>
               (case truthy (refinement_reply be u m ep w ev d) of
                  None \<Rightarrow> Some d
                | Some f \<Rightarrow> Some f)))"
  by (simp add: generate_story_def draft_reply_def evaluation_reply_def refinement_reply_def
      storyteller_prompt_def story_genre_def Let_def split_beta split: option.splits)

lemma extract_characters_eq:
  "extract_characters be story m w =
     (parse_characters (be (length (calls w)) (extract_prompt story) 500) m,
      w\<lparr>calls := calls w @ [(extract_prompt story, 500)]\<rparr>)"
  by (simp add: extract_characters_def call_model_def)

lemma story_genre_simps [simp]:
  "story_genre u m True = genre m" "story_genre u m False = detect_genre u"
  by (simp_all add: story_genre_def)

text \<open>The four ways through \<open>generate_story\<close>: the draft fails; the evaluation fails; an
  episode is evaluated; a new story is evaluated and its characters extracted. Each
  lemma gives the returned story, the memory and the world, log and output included.\<close>

lemma generate_story_draft_fails:
  assumes "truthy (draft_reply be u m ep w) = None"
  shows "generate_story be u m ep w =
     (None, m\<lparr>genre := story_genre u m ep\<rparr>,
      w\<lparr>calls := calls w @ [(storyteller_prompt u m ep, 3000)],
        stdout := stdout w @ [P_creating] @ (if ep then [] else [P_detected (detect_genre u)])\<rparr>)"
  using assms
  by (cases ep; cases "current_story m = []")
     (simp_all add: generate_story_def draft_reply_def storyteller_prompt_def
        call_model_def emit_def Let_def split_beta)

lemma generate_story_evaluation_fails:
  assumes "truthy (draft_reply be u m ep w) = Some d"
    and "truthy (evaluation_reply be u m ep w d) = None"
  shows "generate_story be u m ep w =
     (Some d, m\<lparr>genre := story_genre u m ep\<rparr>,
      w\<lparr>calls := calls w @ [(storyteller_prompt u m ep, 3000),
                             (judge_prompt (story_genre u m ep) d, 1000)],
        stdout := stdout w @ [P_creating] @ (if ep then [] else [P_detected (detect_genre u)])
                    @ [P_evaluating]\<rparr>)"
  using assms
  by (cases ep; cases "current_story m = []")
     (simp_all add: generate_story_def draft_reply_def evaluation_reply_def
        storyteller_prompt_def call_model_def emit_def Let_def split_beta)

lemma generate_story_episode:
  assumes "truthy (draft_reply be u m True w) = Some d"
    and "truthy (evaluation_reply be u m True w d) = Some ev"
  shows "generate_story be u m True w =
     (Some (case truthy (refinement_reply be u m True w ev d) of None \<Rightarrow> d | Some f \<Rightarrow> f),
      m,
      w\<lparr>calls := calls w @ [(storyteller_prompt u m True, 3000),
                             (judge_prompt (genre m) d, 1000),
                             (refine_prompt (genre m) ev d, 3000)],
        stdout := stdout w @ [P_creating, P_evaluating, P_refining]\<rparr>)"
  using assms
  by (cases "current_story m = []")
     (simp_all add: generate_story_def draft_reply_def evaluation_reply_def
        refinement_reply_def storyteller_prompt_def call_model_def emit_def eval_nat_numeral
        Let_def split_beta)

lemma generate_story_new_story:
  assumes "truthy (draft_reply be u m False w) = Some d"
    and "truthy (evaluation_reply be u m False w d) = Some ev"
    and "story = (case truthy (refinement_reply be u m False w ev d) of None \<Rightarrow> d | Some f \<Rightarrow> f)"
  shows "generate_story be u m False w =
     (Some story,
      parse_characters (extraction_reply be w story) (m\<lparr>genre := detect_genre u\<rparr>),
      w\<lparr>calls := calls w @ [(storyteller_prompt u m False, 3000),
                             (judge_prompt (detect_genre u) d, 1000),
                             (refine_prompt (detect_genre u) ev d, 3000),
                             (extract_prompt story, 500)],
        stdout := stdout w @ [P_creating, P_detected (detect_genre u), P_evaluating, P_refining]\<rparr>)"
  using assms
  by (cases "current_story m = []")
     (simp_all add: generate_story_def draft_reply_def evaluation_reply_def
        refinement_reply_def storyteller_prompt_def call_model_def emit_def eval_nat_numeral
        extract_characters_eq extraction_reply_def Let_def split_beta)

lemma answers_simps [simp]:
  "answers (x # xs) 0 p t = x"
  "answers (x # xs) (Suc n) p t = answers xs n p t"
  "answers [] n p t = None"
  by (simp_all add: answers_def)

lemma calls_world0 [simp]: "calls world0 = []"
  by (simp add: world0_def)

text \<open>
  Claim C4, as amended. \<open>generate_story\<close> returns \<open>None\<close> exactly when the draft call
  returns \<open>None\<close> or the empty string. When the draft is a non-empty text, an evaluation
  call or a refinement call that returns \<open>None\<close> or the empty string is not fatal:
  \<open>generate_story\<close> returns the draft text unchanged; a non-empty refinement is returned
  in its place. This holds for every backend.
\<close>

theorem generate_story_null_iff_no_draft:
  "(fst (generate_story be u m ep w) = None
      \<longleftrightarrow> draft_reply be u m ep w = None \<or> draft_reply be u m ep w = Some [])
   \<and> (truthy (draft_reply be u m ep w) = Some d
        \<and> truthy (evaluation_reply be u m ep w d) = None
      \<longrightarrow> fst (generate_story be u m ep w) = Some d)
   \<and> (truthy (draft_reply be u m ep w) = Some d
        \<and> truthy (evaluation_reply be u m ep w d) = Some ev
        \<and> truthy (refinement_reply be u m ep w ev d) = None
      \<longrightarrow> fst (generate_story be u m ep w) = Some d)
   \<and> (truthy (draft_reply be u m ep w) = Some d
        \<and> truthy (evaluation_reply be u m ep w d) = Some ev
        \<and> truthy (refinement_reply be u m ep w ev d) = Some f
      \<longrightarrow> fst (generate_story be u m ep w) = Some f)"
  unfolding generate_story_result
  by (simp add: truthy_cases[symmetric] split: option.splits)

theorem generate_story_null_iff_no_draft_witness:
  "truthy (draft_reply (answers [Some ''Once upon a time'', None]) ''a dragon'' initial_memory False world0)
      = Some ''Once upon a time''
   \<and> truthy (evaluation_reply (answers [Some ''Once upon a time'', None]) ''a dragon'' initial_memory
        False world0 ''Once upon a time'') = None
   \<and> fst (generate_story (answers [Some ''Once upon a time'', None]) ''a dragon'' initial_memory False world0)
      = Some ''Once upon a time''
   \<and> fst (generate_story (answers [None]) ''a dragon'' initial_memory False world0) = None"
proof -
  let ?be = "answers [Some ''Once upon a time'', None]"
  have d: "truthy (draft_reply ?be ''a dragon'' initial_memory False world0) = Some ''Once upon a time''"
    by (simp add: draft_reply_def truthy_def)
  have e: "truthy (evaluation_reply ?be ''a dragon'' initial_memory False world0 ''Once upon a time'') = None"
    by (simp add: evaluation_reply_def truthy_def)
  have n: "draft_reply (answers [None]) ''a dragon'' initial_memory False world0 = None"
    by (simp add: draft_reply_def)
  have r1: "fst (generate_story ?be ''a dragon'' initial_memory False world0) = Some ''Once upon a time''"
    using generate_story_null_iff_no_draft[of ?be "''a dragon''" initial_memory False world0
        "''Once upon a time''"] d e by blast
  have r2: "fst (generate_story (answers [None]) ''a dragon'' initial_memory False world0) = None"
    using generate_story_null_iff_no_draft[of "answers [None]" "''a dragon''" initial_memory False world0]
      n by blast
  from d e r1 r2 show ?thesis by blast
qed

text \<open>
  Counterexample to claim C4 as first stated: a draft call that returns the empty string
  has not returned \<open>None\<close>, yet \<open>if not initial_story\<close> makes \<open>generate_story\<close> return
  \<open>None\<close>.
\<close>

theorem generate_story_empty_draft_counterexample:
  "draft_reply (answers [Some []]) ''a dragon'' initial_memory False world0 = Some []
   \<and> fst (generate_story (answers [Some []]) ''a dragon'' initial_memory False world0) = None"
  by (simp add: generate_story_result draft_reply_def truthy_def)

text \<open>
  Claim C1 says that every non-episode call that returns a story runs the character
  extractor on the returned text. The code at a non-episode request whose draft succeeds
  and whose evaluation call fails: the draft is returned after two model calls (draft,
  evaluation), no extraction call is made, and no character is recorded. The
  \<open>return initial_story\<close> of the evaluation guard leaves the function before the
  extraction step, which the path through a failed refinement does reach.
\<close>

theorem generate_story_evaluation_failure_skips_extraction:
  "fst (generate_story (answers [Some ''Once upon a time'', None]) ''a dragon'' initial_memory False world0)
      = Some ''Once upon a time''
   \<and> map snd (calls (snd (snd (generate_story (answers [Some ''Once upon a time'', None])
        ''a dragon'' initial_memory False world0)))) = [3000, 1000]
   \<and> (extract_prompt ''Once upon a time'', 500)
        \<notin> set (calls (snd (snd (generate_story (answers [Some ''Once upon a time'', None])
              ''a dragon'' initial_memory False world0))))
   \<and> characters (fst (snd (generate_story (answers [Some ''Once upon a time'', None])
        ''a dragon'' initial_memory False world0))) = []"
proof -
  let ?be = "answers [Some ''Once upon a time'', None]"
  have d: "truthy (draft_reply ?be ''a dragon'' initial_memory False world0) = Some ''Once upon a time''"
    by (simp add: draft_reply_def truthy_def)
  have e: "truthy (evaluation_reply ?be ''a dragon'' initial_memory False world0 ''Once upon a time'') = None"
    by (simp add: evaluation_reply_def truthy_def)
  show ?thesis
    unfolding generate_story_evaluation_fails[OF d e]
    by (simp add: initial_memory_def)
qed

text \<open>
  Claim C7. Whenever the feedback text is empty or the rating is at least 4 (for every
  rating, so for 0 to 5), \<open>revise_story_with_feedback\<close> returns its input story and leaves
  the world as it was: no model call is logged.
\<close>

theorem revise_noop:
  "feedback fb = [] \<or> 4 \<le> rating fb \<Longrightarrow>
   revise_story_with_feedback be story fb user_request w = (story, w)"
  by (simp add: revise_story_with_feedback_def)

theorem revise_noop_witness:
  "4 \<le> rating \<lparr>rating = 5, feedback = ''I loved the dragon''\<rparr>
   \<and> revise_story_with_feedback (answers [Some ''another story'']) ''Once upon a time''
        \<lparr>rating = 5, feedback = ''I loved the dragon''\<rparr> ''a dragon'' world0
      = (''Once upon a time'', world0)
   \<and> feedback \<lparr>rating = 1, feedback = []\<rparr> = []
   \<and> revise_story_with_feedback (answers [Some ''another story'']) ''Once upon a time''
        \<lparr>rating = 1, feedback = []\<rparr> ''a dragon'' world0
      = (''Once upon a time'', world0)"
proof -
  have h1: "4 \<le> rating \<lparr>rating = 5, feedback = ''I loved the dragon''\<rparr>" by simp
  have h2: "feedback \<lparr>rating = 1, feedback = []\<rparr> = []" by simp
  from h1 h2
    revise_noop[of "\<lparr>rating = 5, feedback = ''I loved the dragon''\<rparr>" "answers [Some ''another story'']"
      "''Once upon a time''" "''a dragon''" world0]
    revise_noop[of "\<lparr>rating = 1, feedback = []\<rparr>" "answers [Some ''another story'']"
      "''Once upon a time''" "''a dragon''" world0]
  show ?thesis by blast
qed

lemma revise_calls_model:
  "feedback fb \<noteq> [] \<Longrightarrow> rating fb < 4 \<Longrightarrow>
   calls (snd (revise_story_with_feedback be story fb user_request w))
     = calls w @ [(revision_prompt story fb user_request, 3000)]"
  by (simp add: revise_story_with_feedback_def call_model_def split_beta)

section \<open>Character extraction\<close>

lemma starts_with_single: "starts_with s [c] \<longleftrightarrow> (\<exists>cs. s = c # cs)"
  by (cases s) auto

lemma contains_single: "contains [c] s \<longleftrightarrow> c \<in> set s"
  by (induction s) (auto simp: starts_with_single)

lemma starts_with_set: "starts_with s p \<Longrightarrow> set p \<subseteq> set s"
  by (induction s p rule: starts_with.induct) auto

lemma contains_set: "contains sub s \<Longrightarrow> set sub \<subseteq> set s"
proof (induction s)
  case Nil
  then show ?case by simp
next
  case (Cons c cs)
  from Cons.prems have "starts_with (c # cs) sub \<or> contains sub cs" by simp
  then show ?case
  proof
    assume "starts_with (c # cs) sub"
    then show ?thesis by (rule starts_with_set)
  next
    assume "contains sub cs"
    then have "set sub \<subseteq> set cs" by (rule Cons.IH)
    then show ?thesis by auto
  qed
qed

lemma split_on_length: "length (split_on d s) = Suc (length (filter (\<lambda>c. c = d) s))"
  by (induction s) (auto split: list.splits)

lemma split_on_two: "d \<in> set s \<Longrightarrow> 2 \<le> length (split_on d s)"
proof -
  assume "d \<in> set s"
  then have "filter (\<lambda>c. c = d) s \<noteq> []" by (auto simp: filter_empty_conv)
  then have "0 < length (filter (\<lambda>c. c = d) s)" by simp
  then show ?thesis using split_on_length[of d s] by arith
qed

lemma lower_char_colon: "lower_char c = CHR '':'' \<longleftrightarrow> c = CHR '':''"
  by (auto simp: lower_char_def ascii_upper_def ascii_lower_def split: if_splits)

lemma colon_lower_char: "CHR '':'' = lower_char c \<longleftrightarrow> c = CHR '':''"
  using lower_char_colon[of c] by auto

lemma colon_in_lower: "CHR '':'' \<in> set (lower s) \<longleftrightarrow> CHR '':'' \<in> set s"
  by (induction s) (auto simp: lower_def colon_lower_char lower_char_colon)

lemma personality_part_has_colon:
  "contains ''personality:'' (lower part) \<Longrightarrow> 2 \<le> length (split_on CHR '':'' part)"
proof -
  assume "contains ''personality:'' (lower part)"
  then have "set ''personality:'' \<subseteq> set (lower part)" by (rule contains_set)
  then have "CHR '':'' \<in> set (lower part)" by simp
  then show ?thesis by (simp add: colon_in_lower split_on_two)
qed

lemma personality_loop_total: "\<exists>p. personality_loop acc parts = Inr p"
proof (induction parts arbitrary: acc)
  case Nil
  show ?case by simp
next
  case (Cons part parts)
  show ?case
  proof (cases "contains ''personality:'' (lower part)")
    case True
    then have "1 < length (split_on CHR '':'' part)"
      using personality_part_has_colon[of part] by simp
    then show ?thesis using True Cons.IH by (simp add: py_index_def)
  next
    case False
    then show ?thesis using Cons.IH by simp
  qed
qed

lemma split_on_nonempty: "split_on d s \<noteq> []"
  using split_on_length[of d s] by auto

text \<open>What the string operations compute: \<open>contains\<close> is occurrence as a contiguous
  run, and \<open>split_on\<close> cuts at every separator and nowhere else.\<close>

lemma starts_with_iff: "starts_with s p \<longleftrightarrow> (\<exists>ss. s = p @ ss)"
  by (induction s p rule: starts_with.induct) auto

lemma contains_iff: "contains sub s \<longleftrightarrow> (\<exists>ps ss. s = ps @ sub @ ss)"
proof (induction s)
  case Nil
  show ?case by auto
next
  case (Cons c cs)
  have "(\<exists>ps ss. c # cs = ps @ sub @ ss)
          \<longleftrightarrow> (\<exists>ss. c # cs = sub @ ss) \<or> (\<exists>ps ss. cs = ps @ sub @ ss)"
  proof
    assume "\<exists>ps ss. c # cs = ps @ sub @ ss"
    then obtain ps ss where e: "c # cs = ps @ sub @ ss" by blast
    show "(\<exists>ss. c # cs = sub @ ss) \<or> (\<exists>ps ss. cs = ps @ sub @ ss)"
    proof (cases ps)
      case Nil
      then show ?thesis using e by auto
    next
      case (Cons p ps')
      then have "cs = ps' @ sub @ ss" using e by simp
      then show ?thesis by blast
    qed
  next
    assume "(\<exists>ss. c # cs = sub @ ss) \<or> (\<exists>ps ss. cs = ps @ sub @ ss)"
    then show "\<exists>ps ss. c # cs = ps @ sub @ ss"
    proof
      assume "\<exists>ss. c # cs = sub @ ss"
      then obtain ss where "c # cs = [] @ sub @ ss" by auto
      then show ?thesis by blast
    next
      assume "\<exists>ps ss. cs = ps @ sub @ ss"
      then obtain ps ss where "c # cs = (c # ps) @ sub @ ss" by auto
      then show ?thesis by blast
    qed
  qed
  then show ?case using Cons.IH by (simp add: starts_with_iff)
qed

lemma join_split_on: "join [d] (split_on d s) = s"
proof (induction s)
  case Nil
  show ?case by simp
next
  case (Cons c cs)
  obtain p ps where p: "split_on d cs = p # ps"
    using split_on_nonempty[of d cs] by (cases "split_on d cs") auto
  show ?case using Cons.IH p by (cases ps) auto
qed

lemma split_on_no_separator: "p \<in> set (split_on d s) \<Longrightarrow> d \<notin> set p"
  by (induction s arbitrary: p) (auto split: if_splits list.splits)

text \<open>The extraction prompt asks for relationships.\<close>

lemma extract_prompt_asks_relationships:
  "contains ''relationships: name-relationship'' (extract_prompt story)"
proof -
  have "\<exists>ps ss. extract_prompt story = ps @ ''relationships: name-relationship'' @ ss"
    unfolding extract_prompt_def
    by (rule exI[of _ "concat
     [''Analyze this story and extract the main characters with their details:'', nl,
      nl,
      story, nl,
      nl,
      ''For each main character, provide:'', nl,
      ''- Name'', nl,
      ''- Brief description (appearance, role)'', nl,
      ''- 2-3 personality traits'', nl,
      ''- Relationships to other characters'', nl,
      nl,
      ''Format as: CHARACTER_NAME: description | personality: trait1, trait2, trait3 | '']"],
      rule exI[of _ "concat [nl, nl,
      ''Example: Alice: young girl with curly hair, main protagonist | personality: curious, brave, kind | relationships: Bob-best friend'']"])
      simp
  then show ?thesis by (simp only: contains_iff)
qed

lemma parse_line_total: "parse_line line m \<noteq> Inl e"
proof -
  obtain p where p: "personality_loop [] (split_on CHR ''|'' line) = Inr p"
    using personality_loop_total by blast
  have "0 < length (split_on CHR ''|'' line)" using split_on_nonempty[of "CHR ''|''" line] by simp
  then show ?thesis
    using p by (simp add: parse_line_def py_index_def Let_def)
qed


lemma parse_line_only_characters:
  "parse_line line m = Inr m' \<Longrightarrow> \<exists>cs. m' = m\<lparr>characters := cs\<rparr>"
  by (auto simp: parse_line_def Let_def split: sum.splits if_splits intro: exI[of _ "characters m"])

lemma process_line_only_characters: "\<exists>cs. process_line line m = m\<lparr>characters := cs\<rparr>"
proof (cases "parse_line line m")
  case (Inl e)
  then show ?thesis using parse_line_total[of line m e] by simp
next
  case (Inr m')
  from parse_line_only_characters[OF this] obtain cs where "m' = m\<lparr>characters := cs\<rparr>" ..
  then show ?thesis using Inr
    by (auto simp: process_line_def intro: exI[of _ "characters m"])
qed

lemma foldl_process_line_only_characters:
  "\<exists>cs. foldl (\<lambda>m line. process_line line m) m ls = m\<lparr>characters := cs\<rparr>"
proof (induction ls arbitrary: m)
  case Nil
  show ?case by (auto intro: exI[of _ "characters m"])
next
  case (Cons l ls)
  obtain cs where cs: "process_line l m = m\<lparr>characters := cs\<rparr>"
    using process_line_only_characters by blast
  obtain cs' where "foldl (\<lambda>m line. process_line line m) (m\<lparr>characters := cs\<rparr>) ls
      = m\<lparr>characters := cs, characters := cs'\<rparr>"
    using Cons.IH[of "m\<lparr>characters := cs\<rparr>"] by blast
  then show ?case using cs by (auto intro: exI[of _ cs'])
qed

lemma parse_characters_only_characters:
  "\<exists>cs. parse_characters result m = m\<lparr>characters := cs\<rparr>"
  using foldl_process_line_only_characters
  by (auto simp: parse_characters_def split: option.splits intro: exI[of _ "characters m"])

lemma parse_characters_fields:
  "parse_characters result m = m\<lparr>characters := characters (parse_characters result m)\<rparr>"
proof -
  obtain cs where cs: "parse_characters result m = m\<lparr>characters := cs\<rparr>"
    using parse_characters_only_characters by blast
  then have "characters (parse_characters result m) = cs" by simp
  then show ?thesis using cs by simp
qed

lemma malformed_line_iff:
  "malformed_line line \<longleftrightarrow> \<not> contains '':'' line \<or> \<not> contains ''|'' line"
proof -
  have "\<not> isl (parse_line line initial_memory)"
    using parse_line_total[of line initial_memory] by (cases "parse_line line initial_memory") auto
  then show ?thesis by (simp add: malformed_line_def)
qed

lemma process_line_malformed: "malformed_line line \<Longrightarrow> process_line line m = m"
  by (auto simp: malformed_line_iff process_line_def)

lemma process_line_no_name:
  "\<not> contains '':'' (hd (split_on CHR ''|'' line)) \<Longrightarrow> process_line line m = m"
proof -
  assume a: "\<not> contains '':'' (hd (split_on CHR ''|'' line))"
  obtain p ps where p: "split_on CHR ''|'' line = p # ps"
    using split_on_nonempty[of "CHR ''|''" line] by (cases "split_on CHR ''|'' line") auto
  from a p have "CHR '':'' \<notin> set p" by (simp add: contains_single)
  then have "filter (\<lambda>c. c = CHR '':'') p = []" by (auto simp: filter_empty_conv)
  then have "length (split_on CHR '':'' p) = 1" by (simp add: split_on_length)
  then show ?thesis using p by (simp add: process_line_def parse_line_def py_index_def Let_def)
qed

lemma foldl_skip_malformed:
  "foldl (\<lambda>m line. process_line line m) m ls
     = foldl (\<lambda>m line. process_line line m) m (filter (\<lambda>l. \<not> malformed_line l) ls)"
  by (induction ls arbitrary: m) (simp_all add: process_line_malformed)

lemma foldl_all_malformed:
  "\<forall>l\<in>set ls. malformed_line l \<Longrightarrow> foldl (\<lambda>m line. process_line line m) m ls = m"
  by (induction ls arbitrary: m) (simp_all add: process_line_malformed)

text \<open>A well-formed line is recorded, with its traits and without its relationships.\<close>

lemma process_line_example:
  "process_line ''Alice: young girl with curly hair | personality: curious, brave | relationships: Bob-best friend''
     initial_memory
   = initial_memory\<lparr>characters :=
       [(''Alice'', \<lparr>name = ''Alice'', description = ''young girl with curly hair'',
                     personality = [''curious'', ''brave''], relationships = []\<rparr>)]\<rparr>"
  by code_simp

text \<open>
  Claim C8. Each line of an extraction response is processed on its own. A malformed
  line (no colon, no pipe, or a parse that raises) leaves the memory as it is, and no
  line makes the parse raise, so no exception leaves the loop. The result of a response
  is the result of its well-formed lines alone; when every line is malformed the memory
  is unchanged, so no character is recorded. Whatever the response, the extraction
  returns: it changes no field of the memory but \<open>characters\<close>, and it adds one call to
  the log.
\<close>

theorem extraction_skips_malformed_lines:
  "(malformed_line line \<longrightarrow> process_line line m = m)
   \<and> parse_line line m \<noteq> Inl e
   \<and> (truthy result = Some r \<longrightarrow>
        parse_characters result m
          = foldl (\<lambda>m line. process_line line m) m
              (filter (\<lambda>l. \<not> malformed_line l) (split_on CHR 0x0A r)))
   \<and> ((\<forall>l\<in>set (split_on CHR 0x0A r). malformed_line l) \<longrightarrow> parse_characters (Some r) m = m)
   \<and> extract_characters be story m w
        = (m\<lparr>characters := characters (fst (extract_characters be story m w))\<rparr>,
           w\<lparr>calls := calls w @ [(extract_prompt story, 500)]\<rparr>)"
proof -
  have a: "malformed_line line \<longrightarrow> process_line line m = m"
    by (simp add: process_line_malformed)
  have b: "parse_line line m \<noteq> Inl e" by (rule parse_line_total)
  have c: "truthy result = Some r \<longrightarrow>
        parse_characters result m
          = foldl (\<lambda>m line. process_line line m) m
              (filter (\<lambda>l. \<not> malformed_line l) (split_on CHR 0x0A r))"
    using foldl_skip_malformed[of m "split_on CHR 0x0A r"] by (simp add: parse_characters_def)
  have d: "(\<forall>l\<in>set (split_on CHR 0x0A r). malformed_line l) \<longrightarrow> parse_characters (Some r) m = m"
    using foldl_all_malformed[of "split_on CHR 0x0A r" m]
    by (auto simp: parse_characters_def truthy_Some split: option.splits)
  have e: "extract_characters be story m w
        = (m\<lparr>characters := characters (fst (extract_characters be story m w))\<rparr>,
           w\<lparr>calls := calls w @ [(extract_prompt story, 500)]\<rparr>)"
    unfolding extract_characters_eq using parse_characters_fields by simp
  from a b c d e show ?thesis by blast
qed

theorem extraction_skips_malformed_lines_witness:
  "malformed_line ''Bob | a cat''
   \<and> process_line ''Bob | a cat'' initial_memory = initial_memory
   \<and> malformed_line ''Alice is a girl''
   \<and> malformed_line ''name: no pipe here''
   \<and> truthy (Some (''Alice is a girl'' @ nl @ ''Bob | a cat'' @ nl @ ''name: no pipe here''))
       = Some (''Alice is a girl'' @ nl @ ''Bob | a cat'' @ nl @ ''name: no pipe here'')
   \<and> parse_characters (Some (''Alice is a girl'' @ nl @ ''Bob | a cat'' @ nl @ ''name: no pipe here''))
        initial_memory = initial_memory"
proof -
  let ?r = "''Alice is a girl'' @ nl @ ''Bob | a cat'' @ nl @ ''name: no pipe here''"
  have h1: "malformed_line ''Bob | a cat''" by code_simp
  have h2: "malformed_line ''Alice is a girl''" by code_simp
  have h3: "malformed_line ''name: no pipe here''" by code_simp
  have h4: "\<forall>l\<in>set (split_on CHR 0x0A ?r). malformed_line l" by code_simp
  have h5: "truthy (Some ?r) = Some ?r" by (simp add: truthy_def)
  note t = extraction_skips_malformed_lines[of "''Bob | a cat''" initial_memory _ _ ?r]
  from t h1 have c1: "process_line ''Bob | a cat'' initial_memory = initial_memory" by blast
  from t h4 have c2: "parse_characters (Some ?r) initial_memory = initial_memory" by blast
  from h1 h2 h3 h5 c1 c2 show ?thesis by blast
qed

section \<open>Session controller: turns and invariants\<close>

lemma generate_story_memory:
  "fst (snd (generate_story be u m ep w)) = m\<lparr>genre := story_genre u m ep\<rparr>
   \<or> (\<not> ep \<and> (\<exists>res. fst (snd (generate_story be u m ep w))
                      = parse_characters res (m\<lparr>genre := story_genre u m ep\<rparr>)))"
proof (cases "truthy (draft_reply be u m ep w)")
  case None
  then show ?thesis by (simp add: generate_story_draft_fails)
next
  case (Some d)
  note d = this
  show ?thesis
  proof (cases "truthy (evaluation_reply be u m ep w d)")
    case None
    then show ?thesis using d by (simp add: generate_story_evaluation_fails)
  next
    case (Some ev)
    show ?thesis
    proof (cases ep)
      case True
      then show ?thesis using d Some by (simp add: generate_story_episode)
    next
      case False
      then show ?thesis using d Some generate_story_new_story[of be u m w d ev, OF _ _ refl]
        by auto
    qed
  qed
qed

lemma generate_story_frame:
  "\<exists>cs. fst (snd (generate_story be u m ep w)) = m\<lparr>genre := story_genre u m ep, characters := cs\<rparr>"
proof -
  from generate_story_memory[of be u m ep w] show ?thesis
  proof
    assume "fst (snd (generate_story be u m ep w)) = m\<lparr>genre := story_genre u m ep\<rparr>"
    then show ?thesis by (auto intro: exI[of _ "characters m"])
  next
    assume "\<not> ep \<and> (\<exists>res. fst (snd (generate_story be u m ep w))
                      = parse_characters res (m\<lparr>genre := story_genre u m ep\<rparr>))"
    then obtain res where "fst (snd (generate_story be u m ep w))
                      = parse_characters res (m\<lparr>genre := story_genre u m ep\<rparr>)" by blast
    then show ?thesis
      using parse_characters_only_characters[of res "m\<lparr>genre := story_genre u m ep\<rparr>"] by auto
  qed
qed

lemma generate_story_episode_memory: "fst (snd (generate_story be u m True w)) = m"
  using generate_story_memory[of be u m True w] by simp

lemma generate_story_keeps:
  "current_story (fst (snd (generate_story be u m ep w))) = current_story m"
  "story_history (fst (snd (generate_story be u m ep w))) = story_history m"
  "user_preferences (fst (snd (generate_story be u m ep w))) = user_preferences m"
  "world_details (fst (snd (generate_story be u m ep w))) = world_details m"
  "genre (fst (snd (generate_story be u m ep w))) = story_genre u m ep"
  using generate_story_frame[of be u m ep w] by auto

lemma list_all_update:
  "list_all P al \<Longrightarrow> P (k, v) \<Longrightarrow> list_all P (AList.update k v al)"
  by (induction al) auto

lemma parse_line_no_relationships:
  "no_relationships m \<Longrightarrow> parse_line line m = Inr m' \<Longrightarrow> no_relationships m'"
  by (auto simp: parse_line_def no_relationships_def Let_def list_all_update
      split: sum.splits if_splits)

lemma process_line_no_relationships:
  "no_relationships m \<Longrightarrow> no_relationships (process_line line m)"
  by (auto simp: process_line_def split: sum.splits dest: parse_line_no_relationships)

lemma foldl_no_relationships:
  "no_relationships m \<Longrightarrow> no_relationships (foldl (\<lambda>m line. process_line line m) m ls)"
  by (induction ls arbitrary: m) (simp_all add: process_line_no_relationships)

lemma parse_characters_no_relationships:
  "no_relationships m \<Longrightarrow> no_relationships (parse_characters res m)"
  by (simp add: parse_characters_def foldl_no_relationships split: option.splits)

lemma no_relationships_genre [simp]: "no_relationships (m\<lparr>genre := g\<rparr>) = no_relationships m"
  by (simp add: no_relationships_def)

lemma generate_story_no_relationships:
  "no_relationships m \<Longrightarrow> no_relationships (fst (snd (generate_story be u m ep w)))"
  using generate_story_memory[of be u m ep w]
  by (auto simp: parse_characters_no_relationships)

lemma story_turn_memory:
  assumes "story_turn be u ep s = Continue s'"
    and "P (fst (snd (generate_story be u (memory s) ep (emit P_blank (world s)))))"
    and "\<And>story r. P (add_story (fst (snd (generate_story be u (memory s) ep (emit P_blank (world s)))))
            story (genre (fst (snd (generate_story be u (memory s) ep (emit P_blank (world s)))))) u r)"
    and "\<And>story r. P (bump_preference
           (add_story (fst (snd (generate_story be u (memory s) ep (emit P_blank (world s)))))
            story (genre (fst (snd (generate_story be u (memory s) ep (emit P_blank (world s)))))) u r))"
  shows "P (memory s')"
proof -
  obtain story m1 w1 where g: "generate_story be u (memory s) ep (emit P_blank (world s)) = (story, m1, w1)"
    by (cases "generate_story be u (memory s) ep (emit P_blank (world s))") auto
  show ?thesis
  proof (cases "truthy story")
    case None
    then show ?thesis using assms g by (auto simp: story_turn_def)
  next
    case (Some st)
    then show ?thesis using assms g
      by (auto simp: story_turn_def Let_def split_beta split: option.splits if_splits)
  qed
qed


lemma story_turn_never_breaks: "story_turn be u ep s \<noteq> Break s'"
proof -
  obtain story m1 w1 where g: "generate_story be u (memory s) ep (emit P_blank (world s)) = (story, m1, w1)"
    by (cases "generate_story be u (memory s) ep (emit P_blank (world s))") auto
  show ?thesis
    using g by (auto simp: story_turn_def Let_def split_beta split: option.splits if_splits)
qed

lemma next_request_Request:
  assumes "next_request be s = Request u ep s1"
  shows "story_count s1 = story_count s
         \<and> memory s1 = (if ep \<or> story_count s = 0 then memory s else clear_characters (memory s))
         \<and> (ep \<longrightarrow> story_count s \<noteq> 0)"
  using assms
  by (auto simp: next_request_def Let_def split_beta split: option.splits if_splits)

lemma next_request_Quit:
  assumes "next_request be s = Quit s1"
  shows "story_count s1 = story_count s \<and> memory s1 = memory s"
  using assms
  by (auto simp: next_request_def Let_def split_beta split: option.splits if_splits)

lemma truthy_simps [simp]:
  "truthy None = None" "truthy (Some []) = None" "truthy (Some (c # cs)) = Some (c # cs)"
  by (simp_all add: truthy_def)


lemma story_turn_failure:
  assumes "truthy (draft_reply be u (memory s) ep (emit P_blank (world s))) = None"
  shows "story_turn be u ep s =
     Continue (s\<lparr>memory := (memory s)\<lparr>genre := story_genre u (memory s) ep\<rparr>,
                 world := (world s)
                   \<lparr>calls := calls (world s) @ [(storyteller_prompt u (memory s) ep, 3000)],
                    stdout := stdout (world s) @ [P_blank, P_creating]
                       @ (if ep then [] else [P_detected (detect_genre u)])
                       @ [P_sorry ep, P_blank]\<rparr>\<rparr>)"
  unfolding story_turn_def generate_story_draft_fails[OF assms]
  by (simp add: emit_def emits_def)

lemma story_turn_stored:
  assumes "generate_story be u (memory s) ep (emit P_blank (world s)) = (Some st, m1, w1)"
    and "st \<noteq> []"
    and "get_user_feedback (emits [P_here_is ep, P_rule, P_story st, P_rule] w1) = Some (fb, w2)"
    and "feedback fb = []"
    and "rating fb < 4"
  shows "story_turn be u ep s =
     Continue \<lparr>memory = add_story m1 st (genre m1) u (rating fb),
               story_count = story_count s + 1, world = emit P_blank w2\<rparr>"
  using assms by (cases st) (simp_all add: story_turn_def)

lemma get_user_feedback_skipped:
  assumes "stdin w = l # ls" and "\<not> isdigit (strip l)"
  shows "get_user_feedback w =
     Some (\<lparr>rating = 0, feedback = []\<rparr>,
           w\<lparr>stdin := ls, stdout := stdout w @ [P_feedback_header, P_rate]\<rparr>)"
  using assms by (simp add: get_user_feedback_def py_input_def emits_def)


lemma demo_strings:
  "strip ''A brave hero'' = ''A brave hero''"
  "strip ''a princess'' = ''a princess''"
  "strip [] = []"
  "lower ''A brave hero'' \<notin> set [''quit'', ''exit'', ''q'']"
  "lower ''a princess'' \<notin> set [''quit'', ''exit'', ''q'']"
  "detect_genre ''A brave hero'' = ''adventure''"
  "detect_genre ''a princess'' = ''fairy_tale''"
  "\<not> isdigit []"
  by code_simp+

lemma demo_extracted:
  "parse_characters (Some demo_extraction) (initial_memory\<lparr>genre := ''adventure''\<rparr>)
     = initial_memory\<lparr>genre := ''adventure'',
         characters := [(''Alice'', \<lparr>name = ''Alice'', description = ''a brave girl'',
                          personality = [''curious'', ''brave''], relationships = []\<rparr>)]\<rparr>"
  by code_simp

lemma demo_generate1:
  "generate_story demo_backend ''A brave hero'' initial_memory False
     \<lparr>calls = [], stdin = [[], ''a princess''], stdout = [In_first_request, P_blank]\<rparr>
   = (Some demo_refined,
      initial_memory\<lparr>genre := ''adventure'',
         characters := [(''Alice'', \<lparr>name = ''Alice'', description = ''a brave girl'',
                          personality = [''curious'', ''brave''], relationships = []\<rparr>)]\<rparr>,
      \<lparr>calls = [(storyteller_prompt ''A brave hero'' initial_memory False, 3000),
                (judge_prompt ''adventure'' demo_draft, 1000),
                (refine_prompt ''adventure'' demo_evaluation demo_draft, 3000),
                (extract_prompt demo_refined, 500)],
       stdin = [[], ''a princess''],
       stdout = [In_first_request, P_blank, P_creating, P_detected ''adventure'',
                 P_evaluating, P_refining]\<rparr>)"
proof -
  let ?w = "\<lparr>calls = [], stdin = [[], ''a princess''], stdout = [In_first_request, P_blank]\<rparr>"
  have d: "truthy (draft_reply demo_backend ''A brave hero'' initial_memory False ?w) = Some demo_draft"
    by (simp add: draft_reply_def demo_backend_def demo_draft_def)
  have e: "truthy (evaluation_reply demo_backend ''A brave hero'' initial_memory False ?w demo_draft)
             = Some demo_evaluation"
    by (simp add: evaluation_reply_def demo_backend_def demo_evaluation_def)
  have r: "demo_refined = (case truthy (refinement_reply demo_backend ''A brave hero'' initial_memory
             False ?w demo_evaluation demo_draft) of None \<Rightarrow> demo_draft | Some f \<Rightarrow> f)"
    by (simp add: refinement_reply_def demo_backend_def demo_refined_def eval_nat_numeral)
  have x: "extraction_reply demo_backend ?w demo_refined = Some demo_extraction"
    by (simp add: extraction_reply_def demo_backend_def eval_nat_numeral)
  show ?thesis
    unfolding generate_story_new_story[OF d e r] x
    by (simp add: demo_strings demo_extracted)
qed

lemma demo_turn1: "turn demo_backend (initial_session demo_console) = Continue demo_session1"
proof -
  let ?s1 = "\<lparr>memory = initial_memory, story_count = 0,
              world = \<lparr>calls = [], stdin = [[], ''a princess''], stdout = [In_first_request]\<rparr>\<rparr>"
  have n: "next_request demo_backend (initial_session demo_console)
             = Request ''A brave hero'' False ?s1"
    by (simp add: next_request_def initial_session_def demo_console_def py_input_def emit_def
        demo_strings)
  have g: "generate_story demo_backend ''A brave hero'' (memory ?s1) False (emit P_blank (world ?s1))
     = (Some demo_refined,
        initial_memory\<lparr>genre := ''adventure'',
         characters := [(''Alice'', \<lparr>name = ''Alice'', description = ''a brave girl'',
                          personality = [''curious'', ''brave''], relationships = []\<rparr>)]\<rparr>,
      \<lparr>calls = [(storyteller_prompt ''A brave hero'' initial_memory False, 3000),
                (judge_prompt ''adventure'' demo_draft, 1000),
                (refine_prompt ''adventure'' demo_evaluation demo_draft, 3000),
                (extract_prompt demo_refined, 500)],
       stdin = [[], ''a princess''],
       stdout = [In_first_request, P_blank, P_creating, P_detected ''adventure'',
                 P_evaluating, P_refining]\<rparr>)"
    using demo_generate1 by (simp add: emit_def)
  have ne: "demo_refined \<noteq> []" by (simp add: demo_refined_def)
  have f: "get_user_feedback
             (emits [P_here_is False, P_rule, P_story demo_refined, P_rule]
                \<lparr>calls = [(storyteller_prompt ''A brave hero'' initial_memory False, 3000),
                          (judge_prompt ''adventure'' demo_draft, 1000),
                          (refine_prompt ''adventure'' demo_evaluation demo_draft, 3000),
                          (extract_prompt demo_refined, 500)],
                 stdin = [[], ''a princess''],
                 stdout = [In_first_request, P_blank, P_creating, P_detected ''adventure'',
                           P_evaluating, P_refining]\<rparr>)
           = Some (\<lparr>rating = 0, feedback = []\<rparr>,
               \<lparr>calls = [(storyteller_prompt ''A brave hero'' initial_memory False, 3000),
                          (judge_prompt ''adventure'' demo_draft, 1000),
                          (refine_prompt ''adventure'' demo_evaluation demo_draft, 3000),
                          (extract_prompt demo_refined, 500)],
                 stdin = [''a princess''],
                 stdout = [In_first_request, P_blank, P_creating, P_detected ''adventure'',
                           P_evaluating, P_refining, P_here_is False, P_rule,
                           P_story demo_refined, P_rule, P_feedback_header, P_rate]\<rparr>)"
    by (subst get_user_feedback_skipped[where l="[]" and ls="[''a princess'']"])
       (simp_all add: emits_def demo_strings)
  have t: "story_turn demo_backend ''A brave hero'' False ?s1 = Continue demo_session1"
    unfolding story_turn_stored[OF g ne f, simplified]
    by (simp add: demo_session1_def demo_memory1_def add_story_def initial_memory_def emit_def)
  show ?thesis
    unfolding turn_def n using t demo_strings(4) by simp
qed


lemma demo_turn2: "turn demo_backend demo_session1 = Continue demo_session2"
proof -
  let ?s1 = "demo_session1\<lparr>memory := clear_characters demo_memory1,
               world := \<lparr>calls = calls (world demo_session1) @
                                   [(assessment_prompt ''adventure'' demo_refined, 100)],
                          stdin = [],
                          stdout = stdout (world demo_session1) @ [In_next_story]\<rparr>\<rparr>"
  have n: "next_request demo_backend demo_session1 = Request ''a princess'' False ?s1"
    by (simp add: next_request_def demo_session1_def demo_memory1_def py_input_def emit_def
        demo_strings assess_story_quality_def call_model_def demo_backend_def eval_nat_numeral)
  have d: "truthy (draft_reply demo_backend ''a princess'' (memory ?s1) False
             (emit P_blank (world ?s1))) = None"
    by (simp add: draft_reply_def demo_backend_def demo_session1_def eval_nat_numeral)
  have t: "story_turn demo_backend ''a princess'' False ?s1 = Continue demo_session2"
    unfolding story_turn_failure[OF d]
    by (simp add: demo_session2_def demo_session1_def demo_memory1_def clear_characters_def
        demo_strings)
  show ?thesis
    unfolding turn_def n using t demo_strings(5) by simp
qed

lemma demo_reachable: "reachable demo_backend demo_session1" "reachable demo_backend demo_session2"
proof -
  show 1: "reachable demo_backend demo_session1"
    using reachable.start[of demo_backend demo_console] demo_turn1 by (rule reachable.step)
  show "reachable demo_backend demo_session2"
    using 1 demo_turn2 by (rule reachable.step)
qed

lemma turn_memory:
  assumes t: "turn be s = Continue s' \<or> turn be s = Break s'"
    and inv: "P (memory s)"
    and clear: "\<And>m. P m \<Longrightarrow> P (clear_characters m)"
    and gen: "\<And>u m ep w. P m \<Longrightarrow> P (fst (snd (generate_story be u m ep w)))"
    and add: "\<And>m story u r. P m \<Longrightarrow> P (add_story m story (genre m) u r)"
    and bump: "\<And>m. P m \<Longrightarrow> P (bump_preference m)"
  shows "P (memory s')"
proof (cases "next_request be s")
  case Eof
  then show ?thesis using t by (simp add: turn_def)
next
  case (Quit s1)
  then have "s' = s1" using t by (simp add: turn_def)
  then show ?thesis using next_request_Quit[OF Quit] inv by simp
next
  case (Request u ep s1)
  have m1: "P (memory s1)"
    using next_request_Request[OF Request] inv clear by (simp split: if_splits)
  show ?thesis
  proof (cases "lower u \<in> set [''quit'', ''exit'', ''q'']")
    case True
    then have "s' = s1" using t Request by (simp add: turn_def)
    then show ?thesis using m1 by simp
  next
    case nq: False
    show ?thesis
    proof (cases "u = []")
      case True
      then have "s' = s1\<lparr>world := emit P_please_tell (world s1)\<rparr>"
        using t Request nq by (simp add: turn_def)
      then show ?thesis using m1 by simp
    next
      case False
      then have "turn be s = story_turn be u ep s1"
        using Request nq by (simp add: turn_def)
      then have st: "story_turn be u ep s1 = Continue s'"
        using t story_turn_never_breaks[of be u ep s1 s'] by simp
      show ?thesis
        by (rule story_turn_memory[OF st]) (simp_all add: gen add bump m1)
    qed
  qed
qed

lemma reachable_memory:
  assumes "reachable be s"
    and init: "P initial_memory"
    and clear: "\<And>m. P m \<Longrightarrow> P (clear_characters m)"
    and gen: "\<And>u m ep w. P m \<Longrightarrow> P (fst (snd (generate_story be u m ep w)))"
    and add: "\<And>m story u r. P m \<Longrightarrow> P (add_story m story (genre m) u r)"
    and bump: "\<And>m. P m \<Longrightarrow> P (bump_preference m)"
  shows "P (memory s)"
  using assms(1)
proof (induction rule: reachable.induct)
  case (start console)
  show ?case using init by (simp add: initial_session_def)
next
  case (step s s')
  then show ?case using turn_memory[of be s s' P] clear gen add bump by blast
next
  case (leave s s')
  then show ?case using turn_memory[of be s s' P] clear gen add bump by blast
qed

lemma reachable_no_relationships: "reachable be s \<Longrightarrow> no_relationships (memory s)"
proof (rule reachable_memory[where P = no_relationships])
  show "no_relationships initial_memory" by (simp add: no_relationships_def initial_memory_def)
qed (simp_all add: generate_story_no_relationships,
     simp_all add: no_relationships_def clear_characters_def add_story_def bump_preference_def Let_def)

lemma history_consistent_generate:
  "history_consistent m \<Longrightarrow> history_consistent (fst (snd (generate_story be u m ep w)))"
  by (simp add: history_consistent_def generate_story_keeps)

lemma reachable_history_consistent: "reachable be s \<Longrightarrow> history_consistent (memory s)"
proof (rule reachable_memory[where P = history_consistent])
  show "history_consistent initial_memory" by (simp add: history_consistent_def initial_memory_def)
qed (simp_all add: history_consistent_generate,
     simp_all add: history_consistent_def clear_characters_def add_story_def bump_preference_def Let_def)














lemma state_of_simps [simp]:
  "state_of (Break s) = Some Done"
  "state_of (Raise e) = None"
  "state_of (Continue s) = Some (if story_count s = 0 then AwaitingFirstRequest else AwaitingNextAction)"
  by (simp_all add: state_of_def)






text \<open>
  Claim C9. In every session that \<open>main\<close> can reach, every stored character has an empty
  relationships mapping. The extraction prompt asks for relationships, but no operation
  that writes characters records one: processing a line, the whole extraction, and
  \<open>generate_story\<close> each keep the property.
\<close>

theorem relationships_never_recorded:
  "(reachable be s \<longrightarrow> (\<forall>(k, c)\<in>set (characters (memory s)). relationships c = []))
   \<and> contains ''relationships: name-relationship'' (extract_prompt story)
   \<and> (no_relationships m \<longrightarrow> no_relationships (process_line line m))
   \<and> (no_relationships m \<longrightarrow> no_relationships (fst (extract_characters be story m w)))
   \<and> (no_relationships m \<longrightarrow> no_relationships (fst (snd (generate_story be u m ep w))))"
proof -
  have a: "reachable be s \<longrightarrow> (\<forall>(k, c)\<in>set (characters (memory s)). relationships c = [])"
    using reachable_no_relationships[of be s] by (simp add: no_relationships_def list_all_iff)
  have c: "no_relationships m \<longrightarrow> no_relationships (fst (extract_characters be story m w))"
    by (simp add: extract_characters_eq parse_characters_no_relationships)
  from a c process_line_no_relationships generate_story_no_relationships
    extract_prompt_asks_relationships
  show ?thesis by blast
qed

theorem relationships_never_recorded_witness:
  "reachable demo_backend demo_session1
   \<and> contains ''relationships: Bob-best friend'' demo_extraction
   \<and> map fst (characters (memory demo_session1)) = [''Alice'']
   \<and> list_all (\<lambda>(k, c). relationships c = []) (characters (memory demo_session1))"
proof -
  have a: "contains ''relationships: Bob-best friend'' demo_extraction" by code_simp
  have b: "map fst (characters (memory demo_session1)) = [''Alice'']"
    by (simp add: demo_session1_def demo_memory1_def)
  have "\<forall>(k, c)\<in>set (characters (memory demo_session1)). relationships c = []"
    using relationships_never_recorded[of demo_backend demo_session1] demo_reachable(1) by blast
  then have c: "list_all (\<lambda>(k, c). relationships c = []) (characters (memory demo_session1))"
    by (simp add: list_all_iff)
  from demo_reachable(1) a b c show ?thesis by blast
qed

text \<open>
  Claim C10. In every session that \<open>main\<close> can reach, a non-empty \<open>story_history\<close> ends with
  a record whose story is \<open>current_story\<close>. \<open>add_story\<close> sets both to the same text, and no
  other operation on the memory (\<open>generate_story\<close>, \<open>extract_characters\<close>, clearing the
  characters, the preference update) changes either field.
\<close>

theorem current_story_is_newest_history_record:
  "(reachable be s \<longrightarrow> story_history (memory s) \<noteq> [] \<longrightarrow>
       current_story (memory s) = h_story (last (story_history (memory s))))
   \<and> current_story (add_story m story g u r) = story
   \<and> h_story (last (story_history (add_story m story g u r))) = story
   \<and> current_story (fst (snd (generate_story be u m ep w))) = current_story m
   \<and> story_history (fst (snd (generate_story be u m ep w))) = story_history m
   \<and> current_story (fst (extract_characters be story m w)) = current_story m
   \<and> story_history (fst (extract_characters be story m w)) = story_history m
   \<and> current_story (clear_characters m) = current_story m
   \<and> story_history (clear_characters m) = story_history m
   \<and> current_story (bump_preference m) = current_story m
   \<and> story_history (bump_preference m) = story_history m"
proof -
  have a: "reachable be s \<longrightarrow> story_history (memory s) \<noteq> [] \<longrightarrow>
       current_story (memory s) = h_story (last (story_history (memory s)))"
    using reachable_history_consistent[of be s] by (simp add: history_consistent_def)
  obtain cs where x: "fst (extract_characters be story m w) = m\<lparr>characters := cs\<rparr>"
    using parse_characters_only_characters by (auto simp: extract_characters_eq)
  show ?thesis
    using a by (simp add: generate_story_keeps x add_story_def clear_characters_def
        bump_preference_def Let_def)
qed

theorem current_story_is_newest_history_record_witness:
  "reachable demo_backend demo_session2
   \<and> story_history (memory demo_session2) \<noteq> []
   \<and> current_story (memory demo_session2) = h_story (last (story_history (memory demo_session2)))
   \<and> current_story (memory demo_session2) = demo_refined"
proof -
  have n: "story_history (memory demo_session2) \<noteq> []"
    by (simp add: demo_session2_def demo_memory1_def)
  have c: "current_story (memory demo_session2) = demo_refined"
    by (simp add: demo_session2_def demo_memory1_def)
  from current_story_is_newest_history_record[of demo_backend demo_session2] demo_reachable(2) n
  have "current_story (memory demo_session2) = h_story (last (story_history (memory demo_session2)))"
    by blast
  then show ?thesis using demo_reachable(2) n c by blast
qed

end
